theory Spec2Isabelle
  imports Complex_Main "HOL-Library.Word"
begin

section \<open>Values the script handles\<close>

text \<open>
  The script \<^verbatim>\<open>scripts/generate_assets.py\<close> posts one prompt per asset to an image
  generation service, decodes the base64 payload of the answer, writes it to a file and
  prints a summary. The model below follows the script function by function. Everything
  the script gets from outside (the HTTP service, the JSON parser of the HTTP library, the
  base64 decoder, the file system's permissions, the optional imaging library) is a field
  of the record \<open>env\<close>; everything the script changes is a field of \<open>world\<close>.
\<close>

type_synonym bytes = "8 word list"

text \<open>
  What \<^verbatim>\<open>response.json()\<close> returns: Python's \<^verbatim>\<open>None\<close>, \<^verbatim>\<open>bool\<close>, \<^verbatim>\<open>int\<close>,
  \<^verbatim>\<open>float\<close>, \<^verbatim>\<open>str\<close>, \<^verbatim>\<open>list\<close> and \<^verbatim>\<open>dict\<close>. A \<^verbatim>\<open>dict\<close> is the association
  list of its items, looked up with \<open>map_of\<close>.
\<close>

datatype json =
    JNull
  | JBool bool
  | JInt int
  | JFloat real
  | JStr string
  | JArr "json list"
  | JObj "(string \<times> json) list"

text \<open>The exceptions (all of them subclasses of \<^verbatim>\<open>Exception\<close>) that can occur.\<close>

datatype exn =
    JSONDecodeError
  | AttributeError
  | KeyError
  | IndexError
  | TypeError
  | ValueError
  | RequestException
  | OSError
  | FileNotFoundError
  | UnidentifiedImageError
  | UnicodeEncodeError

definition and_then :: "exn + 'a \<Rightarrow> ('a \<Rightarrow> exn + 'b) \<Rightarrow> exn + 'b" where
  "and_then r f = (case r of Inl e \<Rightarrow> Inl e | Inr v \<Rightarrow> f v)"

subsection \<open>The Python operations used on the parsed answer\<close>

text \<open>\<^verbatim>\<open>x.get(k, d)\<close>: only a \<^verbatim>\<open>dict\<close> has the method.\<close>

fun py_get :: "json \<Rightarrow> string \<Rightarrow> json \<Rightarrow> exn + json" where
  "py_get (JObj kvs) k d = Inr (case map_of kvs k of None \<Rightarrow> d | Some v \<Rightarrow> v)"
| "py_get _ k d = Inl AttributeError"

text \<open>\<^verbatim>\<open>not x\<close> is \<open>\<not> truthy x\<close>.\<close>

fun truthy :: "json \<Rightarrow> bool" where
  "truthy JNull = False"
| "truthy (JBool b) = b"
| "truthy (JInt i) = (i \<noteq> 0)"
| "truthy (JFloat x) = (x \<noteq> 0)"
| "truthy (JStr s) = (s \<noteq> [])"
| "truthy (JArr xs) = (xs \<noteq> [])"
| "truthy (JObj kvs) = (kvs \<noteq> [])"

text \<open>\<^verbatim>\<open>x[0]\<close>: the keys of a parsed \<^verbatim>\<open>dict\<close> are strings, so \<^verbatim>\<open>0\<close> is never one.\<close>

fun py_item0 :: "json \<Rightarrow> exn + json" where
  "py_item0 (JArr []) = Inl IndexError"
| "py_item0 (JArr (x # xs)) = Inr x"
| "py_item0 (JStr []) = Inl IndexError"
| "py_item0 (JStr (c # cs)) = Inr (JStr [c])"
| "py_item0 (JObj kvs) = Inl KeyError"
| "py_item0 _ = Inl TypeError"

text \<open>\<^verbatim>\<open>for part in x\<close>: a list gives its elements, a dict its keys, a string its characters.\<close>

fun py_iter :: "json \<Rightarrow> exn + json list" where
  "py_iter (JArr xs) = Inr xs"
| "py_iter (JObj kvs) = Inr (map (\<lambda>kv. JStr (fst kv)) kvs)"
| "py_iter (JStr s) = Inr (map (\<lambda>c. JStr [c]) s)"
| "py_iter _ = Inl TypeError"

fun starts_with :: "string \<Rightarrow> string \<Rightarrow> bool" where
  "starts_with [] s = True"
| "starts_with (c # cs) [] = False"
| "starts_with (c # cs) (d # ds) = (c = d \<and> starts_with cs ds)"

fun str_contains :: "string \<Rightarrow> string \<Rightarrow> bool" where
  "str_contains k [] = (k = [])"
| "str_contains k (c # cs) = (starts_with k (c # cs) \<or> str_contains k cs)"

text \<open>
  \<^verbatim>\<open>k in x\<close> for a string \<open>k\<close>: a key of a dict, a substring of a string, an element of a
  list; any other value is not a container.
\<close>

fun py_in :: "string \<Rightarrow> json \<Rightarrow> exn + bool" where
  "py_in k (JObj kvs) = Inr (map_of kvs k \<noteq> None)"
| "py_in k (JStr s) = Inr (str_contains k s)"
| "py_in k (JArr xs) = Inr (JStr k \<in> set xs)"
| "py_in k _ = Inl TypeError"

text \<open>\<^verbatim>\<open>x[k]\<close> for a string \<open>k\<close>: strings and lists want integer indices.\<close>

fun py_getitem :: "json \<Rightarrow> string \<Rightarrow> exn + json" where
  "py_getitem (JObj kvs) k = (case map_of kvs k of None \<Rightarrow> Inl KeyError | Some v \<Rightarrow> Inr v)"
| "py_getitem _ k = Inl TypeError"

subsection \<open>Requests, answers and the outside world\<close>

record request =
  url :: string
  headers :: "(string \<times> string) list"
  payload :: json
  timeout :: nat

record response =
  status_code :: int
  body_text :: string

text \<open>
  \<open>post n rq\<close> is what \<^verbatim>\<open>requests.post\<close> does with the request \<open>rq\<close> when \<open>n\<close> requests were
  sent before it: it raises or it returns an answer. \<open>loads\<close> is \<^verbatim>\<open>response.json()\<close> on the
  answer's text, \<open>b64decode\<close> is \<^verbatim>\<open>base64.b64decode\<close> on a string. \<open>writable\<close> tells whether
  \<^verbatim>\<open>open(path, 'wb')\<close> succeeds. \<open>pillow\<close> is absent when the import of the imaging library
  fails; otherwise it maps an image file's bytes and a size to the bytes of the resized
  image's file, or raises. \<open>can_print\<close> tells whether
  \<^verbatim>\<open>print(json.dumps(result, indent=2, ensure_ascii=False))\<close> succeeds on the standard output:
  the dump keeps every character of the parsed answer, and \<^verbatim>\<open>print\<close> raises
  \<^verbatim>\<open>UnicodeEncodeError\<close> when the stream cannot encode one of them, as UTF-8 cannot encode
  the lone surrogate that the escape \<^verbatim>\<open>\ud800\<close> parses to. The other prints of the script
  write fixed text, titles and keys of the catalog, numbers, the messages of exceptions
  and the answer's text as the HTTP library decoded it.
\<close>

record env =
  GEMINI_API_KEY :: string
  post :: "nat \<Rightarrow> request \<Rightarrow> exn + response"
  loads :: "string \<Rightarrow> exn + json"
  b64decode :: "string \<Rightarrow> exn + bytes"
  writable :: "string \<Rightarrow> bool"
  pillow :: "(bytes \<Rightarrow> nat \<Rightarrow> exn + bytes) option"
  can_print :: "json \<Rightarrow> bool"

text \<open>
  The state: the files, and a log of each call the properties below speak about (the
  requests sent, the calls of \<open>save_image\<close> and the calls of \<open>create_icon_sizes\<close>), in
  order.
\<close>

record world =
  files :: "string \<rightharpoonup> bytes"
  posts :: "request list"
  saves :: "(string \<times> bytes) list"
  resizes :: "string list"

section \<open>The generation client\<close>

text \<open>
  What the client prints before it returns \<^verbatim>\<open>None\<close>: the request failed, no image was
  generated (no candidates), no image data was found, or the answer could not be analysed.
\<close>

datatype message =
    RequestFailed int string
  | NotGenerated
  | DataNotFound
  | ParseFailed exn

text \<open>The client returns bytes, or \<^verbatim>\<open>None\<close> after printing a message.\<close>

datatype outcome = Image bytes | Absent message

text \<open>The \<^verbatim>\<open>for part in parts\<close> loop with its \<^verbatim>\<open>break\<close>; \<open>JNull\<close> is the initial \<^verbatim>\<open>None\<close>.\<close>

fun find_image_data :: "json list \<Rightarrow> exn + json" where
  "find_image_data [] = Inr JNull"
| "find_image_data (part # rest) =
     and_then (py_in ''inlineData'' part) (\<lambda>found.
       if found then and_then (py_getitem part ''inlineData'') (\<lambda>d. py_get d ''data'' JNull)
       else find_image_data rest)"

definition b64decode_arg :: "(string \<Rightarrow> exn + bytes) \<Rightarrow> json \<Rightarrow> exn + bytes" where
  "b64decode_arg dec v = (case v of JStr s \<Rightarrow> dec s | _ \<Rightarrow> Inl TypeError)"

text \<open>The dump of the parsed answer that lines 343, 357 and 365 print.\<close>

definition print_dump :: "env \<Rightarrow> json \<Rightarrow> exn + unit" where
  "print_dump E result = (if can_print E result then Inr () else Inl UnicodeEncodeError)"

text \<open>
  The body of the \<^verbatim>\<open>try\<close> block, lines 340 to 361. Before each \<^verbatim>\<open>return None\<close> it prints
  a fixed message and the dump.
\<close>

definition try_body :: "env \<Rightarrow> json \<Rightarrow> exn + outcome" where
  "try_body E result =
     and_then (py_get result ''candidates'' (JArr [])) (\<lambda>candidates.
       if \<not> truthy candidates
       then and_then (print_dump E result) (\<lambda>u. Inr (Absent NotGenerated))
       else
         and_then (py_item0 candidates) (\<lambda>c0.
         and_then (py_get c0 ''content'' (JObj [])) (\<lambda>content.
         and_then (py_get content ''parts'' (JArr [])) (\<lambda>parts.
         and_then (py_iter parts) (\<lambda>ps.
         and_then (find_image_data ps) (\<lambda>image_data.
           if \<not> truthy image_data
           then and_then (print_dump E result) (\<lambda>u. Inr (Absent DataNotFound))
           else and_then (b64decode_arg (b64decode E) image_data) (\<lambda>bs. Inr (Image bs))))))))"

text \<open>
  The \<^verbatim>\<open>try\<close> with its \<^verbatim>\<open>except Exception\<close>, lines 339 to 366. The handler prints the
  exception and then the dump again (lines 364 and 365) before it returns \<^verbatim>\<open>None\<close>; what
  the handler itself raises leaves the function.
\<close>

definition parse_result :: "env \<Rightarrow> json \<Rightarrow> exn + outcome" where
  "parse_result E result =
     (case try_body E result of
        Inl e \<Rightarrow> and_then (print_dump E result) (\<lambda>u. Inr (Absent (ParseFailed e)))
      | Inr out \<Rightarrow> Inr out)"

definition build_request :: "string \<Rightarrow> string \<Rightarrow> string \<Rightarrow> request" where
  "build_request key prompt model_id =
     \<lparr>url = ''https://generativelanguage.googleapis.com/v1beta/models/'' @ model_id
              @ '':generateContent'',
      headers = [(''Content-Type'', ''application/json''), (''x-goog-api-key'', key)],
      payload = JObj [
        (''contents'', JArr [JObj [(''parts'', JArr [JObj [(''text'', JStr prompt)]])]]),
        (''generationConfig'', JObj [
           (''responseModalities'', JArr [JStr ''image'', JStr ''text'']),
           (''responseMimeType'', JStr ''text/plain'')])],
      timeout = 180\<rparr>"

text \<open>
  What the client does with the answer, lines 331 to 366. \<^verbatim>\<open>response.json()\<close> on line 336
  is called before the \<^verbatim>\<open>try\<close>, so what it raises leaves the function.
\<close>

definition handle_response :: "env \<Rightarrow> response \<Rightarrow> exn + outcome" where
  "handle_response E r =
     (if status_code r \<noteq> 200 then Inr (Absent (RequestFailed (status_code r) (body_text r)))
      else and_then (loads E (body_text r)) (parse_result E))"

definition generate_image_with_gemini ::
  "env \<Rightarrow> world \<Rightarrow> string \<Rightarrow> string \<Rightarrow> string \<Rightarrow> world \<times> (exn + outcome)" where
  "generate_image_with_gemini E w prompt title model_id =
     (let rq = build_request (GEMINI_API_KEY E) prompt model_id;
          w1 = w\<lparr>posts := posts w @ [rq]\<rparr>
      in (w1, and_then (post E (length (posts w)) rq) (handle_response E)))"

section \<open>The tables\<close>

definition AVAILABLE_MODELS :: "(string \<times> string) list" where
  "AVAILABLE_MODELS =
     [(''gemini-3-pro'', ''gemini-3-pro-image-preview''),
      (''gemini-2.5-flash'', ''gemini-2.5-flash-preview-05-20''),
      (''imagen-3'', ''imagen-3.0-generate-002'')]"

definition DEFAULT_MODEL :: string where
  "DEFAULT_MODEL = ''gemini-3-pro''"

record config =
  title :: string
  prompt :: string
  filename :: string

text \<open>
  The prompt literals of the catalog, line by line. A Python string is kept as the bytes of
  its UTF-8 encoding, so the few characters beyond ASCII are the bytes written with
  \<open>CHR\<close>. Nothing in the script looks into these texts; they are only sent.
\<close>

definition prompt_icon :: string where
  \<open>prompt_icon =
     ''Create a modern app icon for "PasteHost" - a clipboard deployment tool.\<newline>'' @
     ''\<newline>'' @
     ''DESIGN:\<newline>'' @
     ''- Square icon with rounded corners (like iOS/Android app icons)\<newline>'' @
     ''- Size: 128x128 pixels\<newline>'' @
     ''- Background: Gradient from deep blue #1976D2 to purple #7B1FA2\<newline>'' @
     ''\<newline>'' @
     ''MAIN ELEMENTS:\<newline>'' @
     ''- Center: A stylized clipboard icon (white outline, slightly tilted)\<newline>'' @
     ''- On the clipboard: A rocket ship launching upward '' @ [CHR 0xF0, CHR 0x9F, CHR 0x9A, CHR 0x80] @ ''\<newline>'' @
     ''- The rocket has a small flame trail (orange #FF9800 to yellow #FFEB3B gradient)\<newline>'' @
     ''- Small cloud/deploy icons around the rocket\<newline>'' @
     ''\<newline>'' @
     ''STYLE:\<newline>'' @
     ''- Modern, flat design with subtle shadows\<newline>'' @
     ''- Clean lines, minimalist\<newline>'' @
     ''- Professional but friendly\<newline>'' @
     ''- The clipboard represents "copy" and the rocket represents "deploy/ship"\<newline>'' @
     ''\<newline>'' @
     ''COLOR PALETTE:\<newline>'' @
     ''- Primary: #1976D2 (blue)\<newline>'' @
     ''- Secondary: #7B1FA2 (purple)\<newline>'' @
     ''- Accent: #FF9800 (orange), #FFEB3B (yellow)\<newline>'' @
     ''- Icons: White #FFFFFF\<newline>'' @
     ''\<newline>'' @
     ''NO TEXT - icon only.''\<close>

definition prompt_promo_small :: string where
  \<open>prompt_promo_small =
     ''Create a promotional banner for "PasteHost" Chrome extension.\<newline>'' @
     ''\<newline>'' @
     ''SIZE: 440x280 pixels (landscape)\<newline>'' @
     ''\<newline>'' @
     ''BACKGROUND:\<newline>'' @
     ''- Gradient from dark blue #0D47A1 on left to purple #4A148C on right\<newline>'' @
     ''- Subtle grid pattern overlay (tech feel)\<newline>'' @
     ''\<newline>'' @
     ''LEFT SIDE (40%):\<newline>'' @
     ''- Large "PasteHost" text in white, bold modern font\<newline>'' @
     ''- Below: "Clipboard '' @ [CHR 0xE2, CHR 0x86, CHR 0x92] @ '' Web" in smaller text\<newline>'' @
     ''- Small rocket emoji '' @ [CHR 0xF0, CHR 0x9F, CHR 0x9A, CHR 0x80] @ ''\<newline>'' @
     ''\<newline>'' @
     ''RIGHT SIDE (60%):\<newline>'' @
     ''- Illustration showing the workflow:\<newline>'' @
     ''  1. Clipboard icon (white) with code/markdown inside\<newline>'' @
     ''  2. Arrow pointing right\<newline>'' @
     ''  3. Browser window showing a beautiful webpage\<newline>'' @
     ''  4. Netlify and GitHub logos (small, subtle)\<newline>'' @
     ''\<newline>'' @
     ''BOTTOM:\<newline>'' @
     ''- Small icons representing features:\<newline>'' @
     ''  - Markdown icon (M'' @ [CHR 0xE2, CHR 0x86, CHR 0x93] @ '')\<newline>'' @
     ''  - Code brackets { }\<newline>'' @
     ''  - Diagram/flowchart icon\<newline>'' @
     ''  - Lightning bolt (fast)\<newline>'' @
     ''\<newline>'' @
     ''STYLE:\<newline>'' @
     ''- Modern, tech-focused design\<newline>'' @
     ''- Clean and professional\<newline>'' @
     ''- High contrast for readability\<newline>'' @
     ''- Chrome Web Store promotional tile aesthetic''\<close>

definition prompt_promo_large :: string where
  \<open>prompt_promo_large =
     ''Create a large promotional banner for "PasteHost" Chrome extension.\<newline>'' @
     ''\<newline>'' @
     ''SIZE: 920x680 pixels (landscape)\<newline>'' @
     ''\<newline>'' @
     ''BACKGROUND:\<newline>'' @
     ''- Dark gradient: #0D47A1 (blue) to #311B92 (deep purple)\<newline>'' @
     ''- Subtle geometric patterns (hexagons, dots)\<newline>'' @
     ''\<newline>'' @
     ''HEADER (top 30%):\<newline>'' @
     ''- "PasteHost" logo/text - large, white, modern sans-serif font\<newline>'' @
     ''- Tagline: "Deploy Clipboard to Web Instantly" in light blue #64B5F6\<newline>'' @
     ''- Small rocket icon next to logo\<newline>'' @
     ''\<newline>'' @
     ''CENTER (main area, 50%):\<newline>'' @
     ''- Three-step workflow illustration:\<newline>'' @
     ''\<newline>'' @
     ''  STEP 1 (left):\<newline>'' @
     ''  - Clipboard icon with "Ctrl+C" badge\<newline>'' @
     ''  - Sample content showing Markdown/HTML code\<newline>'' @
     ''  - Label: "Copy"\<newline>'' @
     ''\<newline>'' @
     ''  STEP 2 (center):\<newline>'' @
     ''  - PasteHost extension popup mockup\<newline>'' @
     ''  - Two buttons: "Netlify" and "Gist"\<newline>'' @
     ''  - Label: "Click"\<newline>'' @
     ''\<newline>'' @
     ''  STEP 3 (right):\<newline>'' @
     ''  - Browser showing rendered webpage\<newline>'' @
     ''  - Beautiful formatted content with code highlighting\<newline>'' @
     ''  - URL bar showing netlify.app domain\<newline>'' @
     ''  - Label: "Live!"\<newline>'' @
     ''\<newline>'' @
     ''- Curved arrows connecting the steps\<newline>'' @
     ''\<newline>'' @
     ''BOTTOM (20%):\<newline>'' @
     ''- Feature icons in a row:\<newline>'' @
     ''  - "HTML" with checkmark\<newline>'' @
     ''  - "Markdown" with checkmark\<newline>'' @
     ''  - "Syntax Highlighting" with code icon\<newline>'' @
     ''  - "Mermaid Diagrams" with flowchart icon\<newline>'' @
     ''  - "Instant Deploy" with lightning icon\<newline>'' @
     ''\<newline>'' @
     ''FOOTER:\<newline>'' @
     ''- Netlify logo (small)\<newline>'' @
     ''- GitHub logo (small)\<newline>'' @
     ''- "Free & Open Source" badge\<newline>'' @
     ''\<newline>'' @
     ''STYLE:\<newline>'' @
     ''- Professional SaaS/developer tool aesthetic\<newline>'' @
     ''- Clean, modern, high-tech feel\<newline>'' @
     ''- Easy to understand workflow\<newline>'' @
     ''- Appealing to developers''\<close>

definition prompt_screenshot_popup :: string where
  \<open>prompt_screenshot_popup =
     ''Create a screenshot mockup for PasteHost Chrome extension popup.\<newline>'' @
     ''\<newline>'' @
     ''SIZE: 1280x800 pixels\<newline>'' @
     ''\<newline>'' @
     ''BACKGROUND:\<newline>'' @
     ''- A code editor (VS Code style) showing Markdown content\<newline>'' @
     ''- Dark theme editor with syntax highlighting\<newline>'' @
     ''- The Markdown contains:\<newline>'' @
     ''  ```markdown\<newline>'' @
     ''  # Hello World\<newline>'' @
     ''\<newline>'' @
     ''  This is a **demo** of PasteHost.\<newline>'' @
     ''\<newline>'' @
     ''  ```javascript\<newline>'' @
     ''  console.log('' @ [CHR 0x27] @ ''Hello!'' @ [CHR 0x27] @ '');\<newline>'' @
     ''  ```\<newline>'' @
     ''  ```\<newline>'' @
     ''\<newline>'' @
     ''POPUP OVERLAY (center-right):\<newline>'' @
     ''- Chrome extension popup window (300px wide)\<newline>'' @
     ''- White background with shadow\<newline>'' @
     ''- Header: "PasteHost" with small rocket icon\<newline>'' @
     ''- Two large buttons:\<newline>'' @
     ''  1. "Deploy to Netlify" - Blue button #1976D2\<newline>'' @
     ''  2. "Deploy to Gist" - Green button #388E3C\<newline>'' @
     ''- Status area showing: "Ready to deploy"\<newline>'' @
     ''- Small settings gear icon in corner\<newline>'' @
     ''\<newline>'' @
     ''ANNOTATION ARROWS:\<newline>'' @
     ''- Arrow from clipboard icon to popup: "1. Copy content"\<newline>'' @
     ''- Arrow from Netlify button: "2. Click to deploy"\<newline>'' @
     ''- Arrow pointing to imaginary browser: "3. Get shareable URL"\<newline>'' @
     ''\<newline>'' @
     ''BOTTOM BANNER:\<newline>'' @
     ''- Light overlay with text: "One-click deployment for HTML, Markdown & more"\<newline>'' @
     ''\<newline>'' @
     ''STYLE:\<newline>'' @
     ''- Realistic Chrome browser mockup\<newline>'' @
     ''- Professional screenshot for Chrome Web Store\<newline>'' @
     ''- Clear, easy to understand workflow''\<close>

definition prompt_screenshot_result :: string where
  \<open>prompt_screenshot_result =
     ''Create a screenshot showing PasteHost deployment result.\<newline>'' @
     ''\<newline>'' @
     ''SIZE: 1280x800 pixels\<newline>'' @
     ''\<newline>'' @
     ''MAIN CONTENT:\<newline>'' @
     ''- Browser window showing a deployed webpage\<newline>'' @
     ''- URL bar: "https://pastehost-abc123.netlify.app/xyz789/index.html"\<newline>'' @
     ''- Green lock icon (HTTPS)\<newline>'' @
     ''\<newline>'' @
     ''WEBPAGE CONTENT (rendered Markdown):\<newline>'' @
     ''- Clean, beautiful rendered page with:\<newline>'' @
     ''  - Large heading "# Project Documentation"\<newline>'' @
     ''  - Formatted paragraphs\<newline>'' @
     ''  - Code block with syntax highlighting (JavaScript)\<newline>'' @
     ''  - A Mermaid flowchart diagram showing:\<newline>'' @
     ''    ```\<newline>'' @
     ''    graph TD\<newline>'' @
     ''      A[Start] --> B{Decision}\<newline>'' @
     ''      B -->|Yes| C[Action 1]\<newline>'' @
     ''      B -->|No| D[Action 2]\<newline>'' @
     ''    ```\<newline>'' @
     ''  - Bullet list\<newline>'' @
     ''  - Table with data\<newline>'' @
     ''\<newline>'' @
     ''POPUP OVERLAY (bottom-right):\<newline>'' @
     ''- PasteHost popup showing success state:\<newline>'' @
     ''  - Green checkmark '' @ [CHR 0xE2, CHR 0x9C, CHR 0x93] @ ''\<newline>'' @
     ''  - "Success!" text\<newline>'' @
     ''  - URL link (clickable)\<newline>'' @
     ''  - "Copied to clipboard!" message\<newline>'' @
     ''\<newline>'' @
     ''ANNOTATION:\<newline>'' @
     ''- Callout bubble: "Instant live preview!"\<newline>'' @
     ''- Arrow pointing to Mermaid diagram: "Mermaid diagrams supported"\<newline>'' @
     ''- Arrow pointing to code: "Syntax highlighting"\<newline>'' @
     ''\<newline>'' @
     ''STYLE:\<newline>'' @
     ''- Realistic browser mockup\<newline>'' @
     ''- Shows the power of the extension\<newline>'' @
     ''- Professional and polished''\<close>

definition prompt_screenshot_options :: string where
  \<open>prompt_screenshot_options =
     ''Create a screenshot of PasteHost options/settings page.\<newline>'' @
     ''\<newline>'' @
     ''SIZE: 1280x800 pixels\<newline>'' @
     ''\<newline>'' @
     ''BROWSER WINDOW:\<newline>'' @
     ''- Chrome browser with extension options page\<newline>'' @
     ''- URL: "chrome-extension://xxx/options.html"\<newline>'' @
     ''\<newline>'' @
     ''OPTIONS PAGE CONTENT:\<newline>'' @
     ''- Clean white background\<newline>'' @
     ''- Header: "PasteHost Settings" with gear icon\<newline>'' @
     ''\<newline>'' @
     ''FORM SECTIONS:\<newline>'' @
     ''\<newline>'' @
     ''Section 1 - Netlify:\<newline>'' @
     ''- Netlify logo (teal color)\<newline>'' @
     ''- Label: "Netlify Personal Access Token"\<newline>'' @
     ''- Password input field (dots showing hidden token)\<newline>'' @
     ''- Help text: "Get token from app.netlify.com '' @ [CHR 0xE2, CHR 0x86, CHR 0x92] @ '' User Settings '' @ [CHR 0xE2, CHR 0x86, CHR 0x92] @ '' Applications"\<newline>'' @
     ''- Link: "Get your token '' @ [CHR 0xE2, CHR 0x86, CHR 0x92] @ ''"\<newline>'' @
     ''\<newline>'' @
     ''Section 2 - GitHub:\<newline>'' @
     ''- GitHub logo (black)\<newline>'' @
     ''- Label: "GitHub Personal Access Token"\<newline>'' @
     ''- Password input field\<newline>'' @
     ''- Help text: "Requires '' @ [CHR 0x27] @ ''gist'' @ [CHR 0x27] @ '' scope"\<newline>'' @
     ''- Link: "Create token '' @ [CHR 0xE2, CHR 0x86, CHR 0x92] @ ''"\<newline>'' @
     ''\<newline>'' @
     ''BOTTOM:\<newline>'' @
     ''- "Save" button (blue #1976D2)\<newline>'' @
     ''- "Saved!" success message with checkmark\<newline>'' @
     ''\<newline>'' @
     ''SIDEBAR INFO:\<newline>'' @
     ''- "About PasteHost" section\<newline>'' @
     ''- Version: 1.0.0\<newline>'' @
     ''- Links: Documentation, Report Issue, Privacy Policy\<newline>'' @
     ''\<newline>'' @
     ''STYLE:\<newline>'' @
     ''- Clean settings page design\<newline>'' @
     ''- Clear form layout\<newline>'' @
     ''- Professional Chrome extension options aesthetic\<newline>'' @
     ''- Easy to understand where to get tokens''\<close>

text \<open>The catalog, in the order of the dict literal (a Python dict keeps insertion order).\<close>

definition IMAGE_PROMPTS :: "(string \<times> config) list" where
  \<open>IMAGE_PROMPTS =
     [(''icon'',
       \<lparr>title = ''PasteHost '' @ [CHR 0xE3, CHR 0x82, CHR 0xA2, CHR 0xE3, CHR 0x82, CHR 0xA4,
                  CHR 0xE3, CHR 0x82, CHR 0xB3, CHR 0xE3, CHR 0x83, CHR 0xB3] @ '' (128x128)'',
        prompt = prompt_icon,
        filename = ''icon128.png''\<rparr>),
      (''promo_small'',
       \<lparr>title = ''Small Promo Tile (440x280)'',
        prompt = prompt_promo_small,
        filename = ''promo_small_440x280.png''\<rparr>),
      (''promo_large'',
       \<lparr>title = ''Large Promo Tile (920x680)'',
        prompt = prompt_promo_large,
        filename = ''promo_large_920x680.png''\<rparr>),
      (''screenshot_popup'',
       \<lparr>title = ''Screenshot - Popup UI (1280x800)'',
        prompt = prompt_screenshot_popup,
        filename = ''screenshot_popup_1280x800.png''\<rparr>),
      (''screenshot_result'',
       \<lparr>title = ''Screenshot - Deploy Result (1280x800)'',
        prompt = prompt_screenshot_result,
        filename = ''screenshot_result_1280x800.png''\<rparr>),
      (''screenshot_options'',
       \<lparr>title = ''Screenshot - Options Page (1280x800)'',
        prompt = prompt_screenshot_options,
        filename = ''screenshot_options_1280x800.png''\<rparr>)]\<close>

text \<open>The directory \<^verbatim>\<open>assets\<close> beside the script's directory; paths are relative to their parent.\<close>

definition OUTPUT_DIR :: string where
  "OUTPUT_DIR = ''assets''"

definition path_join :: "string \<Rightarrow> string \<Rightarrow> string" where
  "path_join d f = d @ ''/'' @ f"

section \<open>Persistence and icon derivation\<close>

text \<open>
  \<open>save_image\<close>: create the directory, open the file for writing, write the bytes, return
  the path. A failure of the file system (\<open>writable\<close> is false) raises.
\<close>

definition save_image :: "env \<Rightarrow> world \<Rightarrow> bytes \<Rightarrow> string \<Rightarrow> world \<times> (exn + string)" where
  "save_image E w image_data fname =
     (let filepath = path_join OUTPUT_DIR fname;
          w1 = w\<lparr>saves := saves w @ [(fname, image_data)]\<rparr>
      in if writable E filepath
         then (w1\<lparr>files := (files w1)(filepath \<mapsto> image_data)\<rparr>, Inr filepath)
         else (w1, Inl OSError))"

text \<open>\<^verbatim>\<open>str(n)\<close> for the \<^verbatim>\<open>f"icon{size}.png"\<close> of the resize loop.\<close>

definition digit :: "nat \<Rightarrow> char" where
  "digit d = ''0123456789'' ! d"

fun str_nat :: "nat \<Rightarrow> string" where
  "str_nat n = (if n < 10 then [digit n] else str_nat (n div 10) @ [digit (n mod 10)])"

declare str_nat.simps [simp del]

text \<open>\<^verbatim>\<open>OUTPUT_DIR / f"icon{size}.png"\<close>.\<close>

definition icon_size_path :: "nat \<Rightarrow> string" where
  "icon_size_path sz = path_join OUTPUT_DIR (''icon'' @ str_nat sz @ ''.png'')"

text \<open>The loop \<^verbatim>\<open>for size in sizes\<close>: resize, save under that path.\<close>

fun resize_loop ::
  "env \<Rightarrow> (bytes \<Rightarrow> nat \<Rightarrow> exn + bytes) \<Rightarrow> bytes \<Rightarrow> nat list \<Rightarrow> world \<Rightarrow> world \<times> exn option" where
  "resize_loop E rs img [] w = (w, None)"
| "resize_loop E rs img (sz # sizes) w =
     (case rs img sz of
        Inl e \<Rightarrow> (w, Some e)
      | Inr resized \<Rightarrow>
          (let output_path = icon_size_path sz
           in if writable E output_path
              then resize_loop E rs img sizes (w\<lparr>files := (files w)(output_path \<mapsto> resized)\<rparr>)
              else (w, Some OSError)))"

text \<open>
  \<open>create_icon_sizes\<close>: without the imaging library (the \<^verbatim>\<open>ImportError\<close> is caught) only
  a warning is printed; with it the base icon is opened and resized to 16, 32 and 48.
  The second component is the exception that leaves the function, if any.
\<close>

definition create_icon_sizes :: "env \<Rightarrow> world \<Rightarrow> string \<Rightarrow> world \<times> exn option" where
  "create_icon_sizes E w base_icon_path =
     (let w1 = w\<lparr>resizes := resizes w @ [base_icon_path]\<rparr>
      in case pillow E of
           None \<Rightarrow> (w1, None)
         | Some rs \<Rightarrow>
             (case files w1 base_icon_path of
                None \<Rightarrow> (w1, Some FileNotFoundError)
              | Some img \<Rightarrow> resize_loop E rs img [16, 32, 48] w1))"

section \<open>The driver\<close>

record args =
  model :: string
  list_models :: bool
  target :: string

text \<open>\<^verbatim>\<open>{"success": True, "filename": ..., "path": ...}\<close> or \<^verbatim>\<open>{"success": False}\<close>.\<close>

datatype gen_result = Success string string | Failure

text \<open>\<^verbatim>\<open>d[k] = v\<close> on a dict kept as the list of its items in insertion order.\<close>

fun dict_set :: "('k \<times> 'v) list \<Rightarrow> 'k \<Rightarrow> 'v \<Rightarrow> ('k \<times> 'v) list" where
  "dict_set [] k v = [(k, v)]"
| "dict_set (p # ps) k v = (if fst p = k then (k, v) # ps else p # dict_set ps k v)"

text \<open>The variables of \<open>main\<close> that the loop changes, with the world.\<close>

record run_state =
  the_world :: world
  results :: "(string \<times> gen_result) list"
  icon_path :: "string option"

text \<open>\<^verbatim>\<open>not image_data\<close> on what the client returned: \<^verbatim>\<open>None\<close> or empty bytes.\<close>

fun not_image_data :: "outcome \<Rightarrow> bool" where
  "not_image_data (Absent m) = True"
| "not_image_data (Image bs) = (bs = [])"

text \<open>
  One turn of the loop of \<open>main\<close>, lines 454 to 480. The second component is the
  exception that ends the run, if one is raised (nothing in \<open>main\<close> catches any).
\<close>

definition process_entry ::
  "env \<Rightarrow> string \<Rightarrow> string \<times> config \<Rightarrow> run_state \<Rightarrow> run_state \<times> exn option" where
  "process_entry E model_id entry s =
     (let image_id = fst entry; cfg = snd entry
      in case generate_image_with_gemini E (the_world s) (prompt cfg) (title cfg) model_id of
           (w1, Inl e) \<Rightarrow> (s\<lparr>the_world := w1\<rparr>, Some e)
         | (w1, Inr out) \<Rightarrow>
             if not_image_data out
             then (s\<lparr>the_world := w1, results := dict_set (results s) image_id Failure\<rparr>, None)
             else
               (case out of
                  Absent m \<Rightarrow>
                    (s\<lparr>the_world := w1, results := dict_set (results s) image_id Failure\<rparr>, None)
                | Image image_data \<Rightarrow>
                    (case save_image E w1 image_data (filename cfg) of
                       (w2, Inl e) \<Rightarrow> (s\<lparr>the_world := w2\<rparr>, Some e)
                     | (w2, Inr filepath) \<Rightarrow>
                         (s\<lparr>the_world := w2,
                            results := dict_set (results s) image_id
                                         (Success (filename cfg) filepath),
                            icon_path := (if image_id = ''icon'' then Some filepath
                                          else icon_path s)\<rparr>,
                          None))))"

fun main_loop ::
  "env \<Rightarrow> string \<Rightarrow> (string \<times> config) list \<Rightarrow> run_state \<Rightarrow> run_state \<times> exn option" where
  "main_loop E model_id [] s = (s, None)"
| "main_loop E model_id (entry # rest) s =
     (case process_entry E model_id entry s of
        (s1, Some e) \<Rightarrow> (s1, Some e)
      | (s1, None) \<Rightarrow> main_loop E model_id rest s1)"

text \<open>Lines 446 to 449: the whole catalog, or the one entry named.\<close>

definition select_targets :: "string \<Rightarrow> exn + (string \<times> config) list" where
  "select_targets t =
     (if t = ''all'' then Inr IMAGE_PROMPTS
      else case map_of IMAGE_PROMPTS t of None \<Rightarrow> Inl KeyError | Some c \<Rightarrow> Inr [(t, c)])"

text \<open>A line of the summary: the entry with its file name, or the entry marked failed.\<close>

datatype line = Done string string | NotDone string

text \<open>The summary loop, lines 494 to 500: the lines printed and \<open>success_count\<close>.\<close>

fun summary_loop :: "(string \<times> gen_result) list \<Rightarrow> line list \<times> nat \<Rightarrow> line list \<times> nat" where
  "summary_loop [] acc = acc"
| "summary_loop ((image_id, Success fname path) # rest) (ls, success_count) =
     summary_loop rest (ls @ [Done image_id fname], success_count + 1)"
| "summary_loop ((image_id, Failure) # rest) (ls, success_count) =
     summary_loop rest (ls @ [NotDone image_id], success_count)"

text \<open>
  What the summary shows: the lines, and the two numbers of line 502,
  \<^verbatim>\<open>{success_count}/{len(IMAGE_PROMPTS)}\<close>.
\<close>

record report =
  summary_lines :: "line list"
  succeeded :: nat
  out_of :: nat

definition summary :: "(string \<times> gen_result) list \<Rightarrow> report" where
  "summary rs =
     (case summary_loop rs ([], 0) of
        (ls, success_count) \<Rightarrow>
          \<lparr>summary_lines = ls, succeeded = success_count, out_of = length IMAGE_PROMPTS\<rparr>)"

text \<open>
  How a run ends: after listing the models (\<^verbatim>\<open>sys.exit(0)\<close>), with an uncaught exception,
  or after the summary.
\<close>

datatype ending =
    Listed "(string \<times> string \<times> bool) list"
  | Raised exn
  | Finished report

text \<open>Lines 451 and 452: the state before the loop.\<close>

definition start :: "world \<Rightarrow> run_state" where
  "start w = \<lparr>the_world = w, results = [], icon_path = None\<rparr>"

text \<open>Lines 483 to 487: derive the icon sizes if the icon was saved and its file exists.\<close>

definition resize_step :: "env \<Rightarrow> run_state \<Rightarrow> world \<times> exn option" where
  "resize_step E s =
     (case icon_path s of
        None \<Rightarrow> (the_world s, None)
      | Some p \<Rightarrow>
          if files (the_world s) p \<noteq> None then create_icon_sizes E (the_world s) p
          else (the_world s, None))"

definition main :: "env \<Rightarrow> args \<Rightarrow> world \<Rightarrow> world \<times> ending" where
  "main E a w =
     (if list_models a
      then (w, Listed (map (\<lambda>(short_name, model_id).
                              (short_name, model_id, short_name = DEFAULT_MODEL))
                        AVAILABLE_MODELS))
      else
        case map_of AVAILABLE_MODELS (model a) of
          None \<Rightarrow> (w, Raised KeyError)
        | Some model_id \<Rightarrow>
            (case select_targets (target a) of
               Inl e \<Rightarrow> (w, Raised e)
             | Inr targets \<Rightarrow>
                 (case main_loop E model_id targets (start w) of
                    (s, Some e) \<Rightarrow> (the_world s, Raised e)
                  | (s, None) \<Rightarrow>
                      (case resize_step E s of
                         (w1, Some e) \<Rightarrow> (w1, Raised e)
                       | (w1, None) \<Rightarrow> (w1, Finished (summary (results s)))))))"

section \<open>Notions used to state the properties\<close>

text \<open>
  The parts the loop of the client runs over: line 346 up to the loop header, without
  the test for empty candidates (which \<open>py_item0\<close> subsumes).
\<close>

definition nav_parts :: "json \<Rightarrow> exn + json list" where
  "nav_parts result =
     and_then (py_get result ''candidates'' (JArr [])) (\<lambda>candidates.
     and_then (py_item0 candidates) (\<lambda>c0.
     and_then (py_get c0 ''content'' (JObj [])) (\<lambda>content.
     and_then (py_get content ''parts'' (JArr [])) py_iter)))"

text \<open>The parts of the first candidate; none where the answer has no such parts.\<close>

definition first_candidate_parts :: "json \<Rightarrow> json list" where
  "first_candidate_parts result = (case nav_parts result of Inl e \<Rightarrow> [] | Inr ps \<Rightarrow> ps)"

text \<open>Lines 355 to 361: what the client does with the data the loop found.\<close>

definition decode_found :: "env \<Rightarrow> json \<Rightarrow> json \<Rightarrow> exn + outcome" where
  "decode_found E result image_data =
     (if \<not> truthy image_data
      then and_then (print_dump E result) (\<lambda>u. Inr (Absent DataNotFound))
      else and_then (b64decode_arg (b64decode E) image_data) (\<lambda>bs. Inr (Image bs)))"

text \<open>The request the driver sends for a catalog entry.\<close>

definition request_for :: "env \<Rightarrow> string \<Rightarrow> string \<times> config \<Rightarrow> request" where
  "request_for E model_id entry = build_request (GEMINI_API_KEY E) (prompt (snd entry)) model_id"

text \<open>
  What the client returns for a catalog entry when \<open>n\<close> requests were sent before its
  own, and what the turn of the loop for that entry then records and saves.
\<close>

definition client_answer :: "env \<Rightarrow> string \<Rightarrow> nat \<Rightarrow> string \<times> config \<Rightarrow> exn + outcome" where
  "client_answer E model_id n entry =
     and_then (post E n (request_for E model_id entry)) (handle_response E)"

definition entry_result :: "env \<Rightarrow> string \<Rightarrow> nat \<Rightarrow> string \<times> config \<Rightarrow> gen_result" where
  "entry_result E model_id n entry =
     (case client_answer E model_id n entry of
        Inr (Image bs) \<Rightarrow>
          if bs = [] then Failure
          else Success (filename (snd entry)) (path_join OUTPUT_DIR (filename (snd entry)))
      | _ \<Rightarrow> Failure)"

definition entry_saves :: "env \<Rightarrow> string \<Rightarrow> nat \<Rightarrow> string \<times> config \<Rightarrow> (string \<times> bytes) list" where
  "entry_saves E model_id n entry =
     (case client_answer E model_id n entry of
        Inr (Image bs) \<Rightarrow> if bs = [] then [] else [(filename (snd entry), bs)]
      | _ \<Rightarrow> [])"

text \<open>The same for a list of entries whose requests are the \<open>n\<close>-th and following ones.\<close>

fun expected_results ::
  "env \<Rightarrow> string \<Rightarrow> nat \<Rightarrow> (string \<times> config) list \<Rightarrow> (string \<times> gen_result) list" where
  "expected_results E model_id n [] = []"
| "expected_results E model_id n (entry # rest) =
     (fst entry, entry_result E model_id n entry) # expected_results E model_id (Suc n) rest"

fun expected_saves ::
  "env \<Rightarrow> string \<Rightarrow> nat \<Rightarrow> (string \<times> config) list \<Rightarrow> (string \<times> bytes) list" where
  "expected_saves E model_id n [] = []"
| "expected_saves E model_id n (entry # rest) =
     entry_saves E model_id n entry @ expected_saves E model_id (Suc n) rest"

fun line_id :: "line \<Rightarrow> string" where
  "line_id (Done image_id fname) = image_id"
| "line_id (NotDone image_id) = image_id"

text \<open>The summary line of a recorded result, and whether a line counts as a success.\<close>

fun line_of :: "string \<times> gen_result \<Rightarrow> line" where
  "line_of (image_id, Success fname path) = Done image_id fname"
| "line_of (image_id, Failure) = NotDone image_id"

fun is_done :: "line \<Rightarrow> bool" where
  "is_done (Done image_id fname) = True"
| "is_done (NotDone image_id) = False"

text \<open>
  The invariant of the loop behind the icon step: when \<open>icon_path\<close> is set, the result
  recorded for \<^verbatim>\<open>icon\<close> is a success with that path.
\<close>

definition icon_recorded :: "run_state \<Rightarrow> bool" where
  "icon_recorded s =
     (case icon_path s of
        None \<Rightarrow> True
      | Some p \<Rightarrow>
          (case map_of (results s) ''icon'' of Some (Success f q) \<Rightarrow> q = p | _ \<Rightarrow> False))"

subsection \<open>Concrete services for the examples\<close>

text \<open>
  A decoder that knows the base64 text of the three bytes \<^verbatim>\<open>ABC\<close> and two texts of no
  bytes, the empty one and the one that is padding only (Python's decoder accepts both).
\<close>

definition example_dec :: "string \<Rightarrow> exn + bytes" where
  "example_dec s =
     (if s = ''QUJD'' then Inr [0x41, 0x42, 0x43]
      else if s = [] then Inr []
      else if s = ''===='' then Inr []
      else Inl ValueError)"

definition good_text :: string where
  \<open>good_text =
     ''{"candidates":[{"content":{"parts":[{"text":"ok"},{"inlineData":{"data":"QUJD"}}]}}]}''\<close>

definition good_json :: json where
  "good_json =
     JObj [(''candidates'', JArr [JObj [(''content'', JObj [(''parts'', JArr
       [JObj [(''text'', JStr ''ok'')],
        JObj [(''inlineData'', JObj [(''data'', JStr ''QUJD'')])]])])]])]"

definition late_text :: string where
  \<open>late_text =
     ''{"candidates":[{"content":{"parts":[{"inlineData":{}},{"inlineData":{"data":"QUJD"}}]}}]}''\<close>

definition late_json :: json where
  "late_json =
     JObj [(''candidates'', JArr [JObj [(''content'', JObj [(''parts'', JArr
       [JObj [(''inlineData'', JObj [])],
        JObj [(''inlineData'', JObj [(''data'', JStr ''QUJD'')])]])])]])]"

definition empty_text :: string where
  \<open>empty_text = ''{"candidates":[{"content":{"parts":[{"inlineData":{"data":""}}]}}]}''\<close>

definition empty_json :: json where
  "empty_json =
     JObj [(''candidates'', JArr [JObj [(''content'', JObj [(''parts'', JArr
       [JObj [(''inlineData'', JObj [(''data'', JStr [])])]])])]])]"

definition words_text :: string where
  \<open>words_text = ''{"candidates":[{"content":{"parts":[{"text":"no image"}]}}]}''\<close>

definition words_json :: json where
  "words_json =
     JObj [(''candidates'', JArr [JObj [(''content'', JObj [(''parts'', JArr
       [JObj [(''text'', JStr ''no image'')]])])]])]"

definition padding_text :: string where
  \<open>padding_text = ''{"candidates":[{"content":{"parts":[{"inlineData":{"data":"===="}}]}}]}''\<close>

definition padding_json :: json where
  "padding_json =
     JObj [(''candidates'', JArr [JObj [(''content'', JObj [(''parts'', JArr
       [JObj [(''inlineData'', JObj [(''data'', JStr ''===='')])]])])]])]"

text \<open>
  Two answers whose text part is the escape \<^verbatim>\<open>\ud800\<close>, a lone surrogate once parsed. In
  the strings of this model, which are bytes, the surrogate is the three bytes that the
  UTF-8 scheme would give it (a strict encoder refuses them).
\<close>

definition surrogate_text :: string where
  \<open>surrogate_text =
     ''{"candidates":[{"content":{"parts":[{"text":"'' @ [CHR 0x5C] @ ''ud800"}]}}]}''\<close>

definition surrogate_json :: json where
  "surrogate_json =
     JObj [(''candidates'', JArr [JObj [(''content'', JObj [(''parts'', JArr
       [JObj [(''text'', JStr [CHR 0xED, CHR 0xA0, CHR 0x80])]])])]])]"

definition surrogate_empty_text :: string where
  \<open>surrogate_empty_text =
     ''{"candidates":[{"content":{"parts":[{"text":"'' @ [CHR 0x5C]
       @ ''ud800"},{"inlineData":{"data":""}}]}}]}''\<close>

definition surrogate_empty_json :: json where
  "surrogate_empty_json =
     JObj [(''candidates'', JArr [JObj [(''content'', JObj [(''parts'', JArr
       [JObj [(''text'', JStr [CHR 0xED, CHR 0xA0, CHR 0x80])],
        JObj [(''inlineData'', JObj [(''data'', JStr [])])]])])]])]"

text \<open>A parser that knows these texts; any other text is not JSON for it.\<close>

definition example_loads :: "string \<Rightarrow> exn + json" where
  "example_loads s =
     (if s = good_text then Inr good_json
      else if s = late_text then Inr late_json
      else if s = empty_text then Inr empty_json
      else if s = words_text then Inr words_json
      else if s = padding_text then Inr padding_json
      else if s = surrogate_text then Inr surrogate_json
      else if s = surrogate_empty_text then Inr surrogate_empty_json
      else Inl JSONDecodeError)"

text \<open>
  A standard output that encodes UTF-8 strictly: it prints a dump unless one of the
  strings in it holds a surrogate, that is the byte \<^verbatim>\<open>ED\<close> followed by a byte from \<^verbatim>\<open>A0\<close> on.
\<close>

fun has_surrogate :: "string \<Rightarrow> bool" where
  "has_surrogate (c # d # cs) =
     ((c = CHR 0xED \<and> (160::nat) \<le> of_char d) \<or> has_surrogate (d # cs))"
| "has_surrogate cs = False"

fun strict_utf8 :: "json \<Rightarrow> bool" where
  "strict_utf8 (JStr s) = (\<not> has_surrogate s)"
| "strict_utf8 (JArr xs) = list_all strict_utf8 xs"
| "strict_utf8 (JObj kvs) = list_all (\<lambda>kv. \<not> has_surrogate (fst kv) \<and> strict_utf8 (snd kv)) kvs"
| "strict_utf8 j = True"

text \<open>
  An environment whose service gives the \<open>n\<close>-th request the answer \<open>answers n\<close>, where
  every file can be written, the imaging library is there (its resize is the identity
  on the file's bytes) and the standard output is strict UTF-8.
\<close>

definition example_env :: "(nat \<Rightarrow> exn + response) \<Rightarrow> env" where
  "example_env answers =
     \<lparr>GEMINI_API_KEY = ''secret'',
      post = (\<lambda>n rq. answers n),
      loads = example_loads,
      b64decode = example_dec,
      writable = (\<lambda>p. True),
      pillow = Some (\<lambda>img sz. Inr img),
      can_print = strict_utf8\<rparr>"

definition answer :: "int \<Rightarrow> string \<Rightarrow> exn + response" where
  "answer code body = Inr \<lparr>status_code = code, body_text = body\<rparr>"


definition empty_world :: world where
  "empty_world = \<lparr>files = Map.empty, posts = [], saves = [], resizes = []\<rparr>"


text \<open>The example environment on a file system where nothing can be written.\<close>

definition read_only_env :: "(nat \<Rightarrow> exn + response) \<Rightarrow> env" where
  "read_only_env answers = (example_env answers)\<lparr>writable := (\<lambda>p. False)\<rparr>"

definition run_args :: "string \<Rightarrow> args" where
  "run_args t = \<lparr>model = DEFAULT_MODEL, list_models = False, target = t\<rparr>"

section \<open>Evaluating on the concrete services\<close>

text \<open>The definitions to unfold to run the client and \<open>main\<close> on the concrete services.\<close>

lemmas run_defs = main_def run_args_def DEFAULT_MODEL_def AVAILABLE_MODELS_def select_targets_def
  IMAGE_PROMPTS_def start_def process_entry_def generate_image_with_gemini_def
  handle_response_def and_then_def example_env_def answer_def example_loads_def
  good_text_def late_text_def empty_text_def words_text_def padding_text_def
  surrogate_text_def surrogate_empty_text_def
  good_json_def late_json_def empty_json_def words_json_def padding_json_def
  surrogate_json_def surrogate_empty_json_def
  parse_result_def try_body_def print_dump_def b64decode_arg_def example_dec_def save_image_def
  resize_step_def create_icon_sizes_def summary_def empty_world_def path_join_def OUTPUT_DIR_def
  icon_size_path_def Let_def

section \<open>Properties of the generation client\<close>

lemma item0_truthy: "py_item0 c = Inr x \<Longrightarrow> truthy c"
  by (cases c rule: py_item0.cases) simp_all

lemma try_body_parts:
  assumes "nav_parts result = Inr ps"
  shows "try_body E result = and_then (find_image_data ps) (decode_found E result)"
  using assms
  by (auto simp: try_body_def nav_parts_def and_then_def decode_found_def
      split: sum.splits dest: item0_truthy)

lemma try_body_no_parts:
  assumes "nav_parts result = Inl e"
  shows "try_body E result = Inl e
         \<or> try_body E result = and_then (print_dump E result) (\<lambda>u. Inr (Absent NotGenerated))"
  using assms
  by (auto simp: try_body_def nav_parts_def and_then_def split: sum.splits)

lemma find_skip:
  "\<forall>q\<in>set pre. py_in ''inlineData'' q = Inr False \<Longrightarrow>
     find_image_data (pre @ rest) = find_image_data rest"
  by (induction pre) (simp_all add: and_then_def)

lemma find_none:
  "\<forall>q\<in>set ps. py_in ''inlineData'' q \<noteq> Inr True \<Longrightarrow>
     find_image_data ps = Inr JNull \<or> (\<exists>e. find_image_data ps = Inl e)"
  by (induction ps) (auto simp: and_then_def split: sum.splits)

lemma find_hit:
  "map_of kv ''inlineData'' = Some d \<Longrightarrow>
     find_image_data (JObj kv # rest) = py_get d ''data'' JNull"
  by (simp add: and_then_def)

lemma parse_first_inline:
  assumes "nav_parts result = Inr (pre @ JObj kv # rest)"
    and "\<forall>q\<in>set pre. py_in ''inlineData'' q = Inr False"
    and "map_of kv ''inlineData'' = Some d"
  shows "parse_result E result =
           (case and_then (py_get d ''data'' JNull) (decode_found E result) of
              Inl e \<Rightarrow> and_then (print_dump E result) (\<lambda>u. Inr (Absent (ParseFailed e)))
            | Inr out \<Rightarrow> Inr out)"
  by (simp add: parse_result_def try_body_parts [OF assms(1)] find_skip [OF assms(2)]
      find_hit [OF assms(3)] del: find_image_data.simps)

lemma generate_answered:
  assumes "post E (length (posts w)) (build_request (GEMINI_API_KEY E) p model_id) = Inr r"
  shows "generate_image_with_gemini E w p t model_id =
           (w\<lparr>posts := posts w @ [build_request (GEMINI_API_KEY E) p model_id]\<rparr>,
            handle_response E r)"
  using assms by (simp add: generate_image_with_gemini_def Let_def and_then_def)

lemma handle_parsed:
  assumes "status_code r = 200" and "loads E (body_text r) = Inr result"
  shows "handle_response E r = parse_result E result"
  using assms by (simp add: handle_response_def and_then_def)

text \<open>
  The \<^verbatim>\<open>except\<close> clause turns every exception of the \<^verbatim>\<open>try\<close> block into \<^verbatim>\<open>None\<close>, unless
  the dump cannot be printed: then the handler raises itself. So once the service has
  answered, an exception leaves the client in two cases only: \<^verbatim>\<open>response.json()\<close> raises on
  a 200 answer, or a dump of the parsed answer cannot be printed.
\<close>

lemma parse_result_raises:
  "parse_result E result = Inl e \<Longrightarrow> e = UnicodeEncodeError \<and> \<not> can_print E result"
  by (auto simp: parse_result_def print_dump_def and_then_def split: sum.splits if_splits)

lemma parse_result_printed:
  "can_print E result \<Longrightarrow> \<exists>out. parse_result E result = Inr out"
  by (cases "parse_result E result") (auto dest: parse_result_raises)

lemma handle_raises:
  "handle_response E r = Inl e \<Longrightarrow>
     status_code r = 200
     \<and> (loads E (body_text r) = Inl e
         \<or> (\<exists>result. loads E (body_text r) = Inr result \<and> \<not> can_print E result
                      \<and> e = UnicodeEncodeError))"
  by (auto simp: handle_response_def and_then_def split: if_splits sum.splits
      dest: parse_result_raises)

lemma parse_no_inline:
  assumes "\<forall>q\<in>set (first_candidate_parts result). py_in ''inlineData'' q \<noteq> Inr True"
  shows "if can_print E result then \<exists>m. parse_result E result = Inr (Absent m)
         else parse_result E result = Inl UnicodeEncodeError"
proof (cases "nav_parts result")
  case (Inl e)
  from try_body_no_parts [OF this, of E] show ?thesis
    by (auto simp: parse_result_def print_dump_def and_then_def)
next
  case (Inr ps)
  with assms have "\<forall>q\<in>set ps. py_in ''inlineData'' q \<noteq> Inr True"
    by (simp add: first_candidate_parts_def)
  from find_none [OF this] show ?thesis
    by (auto simp: parse_result_def try_body_parts [OF Inr] and_then_def decode_found_def
        print_dump_def)
qed

lemma process_entry_absent:
  assumes "generate_image_with_gemini E (the_world s) (prompt (snd entry)) (title (snd entry))
             model_id = (w1, Inr (Absent m))"
  shows "process_entry E model_id entry s =
           (s\<lparr>the_world := w1, results := dict_set (results s) (fst entry) Failure\<rparr>, None)"
  using assms by (simp add: process_entry_def Let_def)

lemma process_entry_raises:
  assumes "generate_image_with_gemini E (the_world s) (prompt (snd entry)) (title (snd entry))
             model_id = (w1, Inl e)"
  shows "process_entry E model_id entry s = (s\<lparr>the_world := w1\<rparr>, Some e)"
  using assms by (simp add: process_entry_def Let_def)

subsection \<open>An empty inline payload\<close>

text \<open>
  When the first part with an \<^verbatim>\<open>inlineData\<close> key has an inline-data object whose \<^verbatim>\<open>data\<close> field
  is missing or the empty string, the client never returns bytes: it reports that no image
  data was found and returns \<^verbatim>\<open>None\<close> if the dump of line 357 can be printed, and raises
  otherwise.
\<close>

lemma empty_inline_payload_cases:
  assumes "post E (length (posts w)) (build_request (GEMINI_API_KEY E) p model_id) = Inr r"
    and "status_code r = 200"
    and "loads E (body_text r) = Inr result"
    and "nav_parts result = Inr (pre @ JObj kv # rest)"
    and "\<forall>q\<in>set pre. py_in ''inlineData'' q = Inr False"
    and "map_of kv ''inlineData'' = Some (JObj d)"
    and "map_of d ''data'' = None \<or> map_of d ''data'' = Some (JStr [])"
  shows "snd (generate_image_with_gemini E w p t model_id) =
           (if can_print E result then Inr (Absent DataNotFound) else Inl UnicodeEncodeError)"
proof -
  have "py_get (JObj d) ''data'' JNull = Inr JNull \<or> py_get (JObj d) ''data'' JNull = Inr (JStr [])"
    using assms(7) by auto
  then have "and_then (py_get (JObj d) ''data'' JNull) (decode_found E result)
               = and_then (print_dump E result) (\<lambda>u. Inr (Absent DataNotFound))"
    by (auto simp: and_then_def decode_found_def)
  then have "parse_result E result =
               (if can_print E result then Inr (Absent DataNotFound) else Inl UnicodeEncodeError)"
    by (simp add: parse_first_inline [OF assms(4,5,6)] print_dump_def and_then_def)
  then show ?thesis
    by (simp add: generate_answered [OF assms(1)] handle_parsed [OF assms(2,3)])
qed

text \<open>
  C10 does not hold of the code. The answer below has status 200; its first candidate has a
  text part that holds the escape \<^verbatim>\<open>\ud800\<close> and then a part whose \<^verbatim>\<open>inlineData\<close> has the
  empty string as \<^verbatim>\<open>data\<close>. Line 355 finds no image data, line 357 prints the dump of the
  answer, which a UTF-8 output cannot encode; the \<^verbatim>\<open>UnicodeEncodeError\<close> is caught on
  line 363, line 365 prints the dump again, and that exception leaves the client, which
  returns nothing.
\<close>

theorem empty_inline_payload_raises:
  "loads (example_env (\<lambda>n. answer 200 surrogate_empty_text)) surrogate_empty_text
     = Inr surrogate_empty_json
   \<and> first_candidate_parts surrogate_empty_json =
       [JObj [(''text'', JStr [CHR 0xED, CHR 0xA0, CHR 0x80])],
        JObj [(''inlineData'', JObj [(''data'', JStr [])])]]
   \<and> snd (generate_image_with_gemini (example_env (\<lambda>n. answer 200 surrogate_empty_text))
            empty_world ''draw'' ''Icon'' ''gemini-3-pro-image-preview'')
       = Inl UnicodeEncodeError"
  by (simp add: run_defs first_candidate_parts_def nav_parts_def)

subsection \<open>The first part with inline data\<close>

text \<open>
  C3, as the specification states it, fails: in the answer below the first candidate has
  two parts, the first with an empty \<^verbatim>\<open>inlineData\<close> object and the second with the data
  \<^verbatim>\<open>QUJD\<close>, which decodes to three bytes. The loop stops at the first part that has the key
  \<^verbatim>\<open>inlineData\<close>, finds no data there, and the client returns \<^verbatim>\<open>None\<close>.
\<close>

theorem first_data_part_counterexample:
  "loads (example_env (\<lambda>n. answer 200 late_text)) late_text = Inr late_json
   \<and> first_candidate_parts late_json =
       [JObj [(''inlineData'', JObj [])],
        JObj [(''inlineData'', JObj [(''data'', JStr ''QUJD'')])]]
   \<and> b64decode (example_env (\<lambda>n. answer 200 late_text)) ''QUJD'' = Inr [0x41, 0x42, 0x43]
   \<and> snd (generate_image_with_gemini (example_env (\<lambda>n. answer 200 late_text)) empty_world
            ''draw'' ''Icon'' ''gemini-3-pro-image-preview'') = Inr (Absent DataNotFound)"
  by (simp add: run_defs first_candidate_parts_def nav_parts_def)

text \<open>
  C3, amended. Take an answer with status 200 whose body parses, whose first candidate has
  parts, and in which
  \<^item> every part before the first one that has an \<^verbatim>\<open>inlineData\<close> key is a value on which the
    test \<^verbatim>\<open>'inlineData' in part\<close> of line 351 is false and does not raise: an object without
    that key, a string that does not contain that word, or a list without that string
    (on a number, a boolean or \<^verbatim>\<open>null\<close> the test raises and the client returns \<^verbatim>\<open>None\<close>);
  \<^item> the first part that has the key is an object whose \<^verbatim>\<open>inlineData\<close> is an object whose
    \<^verbatim>\<open>data\<close> field is a non-empty string that the base64 decoder accepts.

  Then the client returns the decoded bytes of that string, whatever the parts after it
  contain.
\<close>

theorem first_inline_part_is_decoded:
  assumes "post E (length (posts w)) (build_request (GEMINI_API_KEY E) p model_id) = Inr r"
    and "status_code r = 200"
    and "loads E (body_text r) = Inr result"
    and "nav_parts result = Inr (pre @ JObj kv # rest)"
    and "\<forall>q\<in>set pre. py_in ''inlineData'' q = Inr False"
    and "map_of kv ''inlineData'' = Some (JObj d)"
    and "map_of d ''data'' = Some (JStr b64)"
    and "b64 \<noteq> []"
    and "b64decode E b64 = Inr bs"
  shows "snd (generate_image_with_gemini E w p t model_id) = Inr (Image bs)"
proof -
  have "and_then (py_get (JObj d) ''data'' JNull) (decode_found E result) = Inr (Image bs)"
    using assms(7,8,9) by (simp add: and_then_def decode_found_def b64decode_arg_def)
  then have "parse_result E result = Inr (Image bs)"
    by (simp add: parse_first_inline [OF assms(4,5,6)])
  then show ?thesis
    by (simp add: generate_answered [OF assms(1)] handle_parsed [OF assms(2,3)])
qed

theorem first_inline_part_is_decoded_witness:
  "snd (generate_image_with_gemini (example_env (\<lambda>n. answer 200 good_text)) empty_world
          ''draw'' ''Icon'' ''gemini-3-pro-image-preview'') = Inr (Image [0x41, 0x42, 0x43])"
proof -
  let ?E = "example_env (\<lambda>n. answer 200 good_text)"
  let ?r = "\<lparr>status_code = 200, body_text = good_text\<rparr>"
  have 1: "post ?E (length (posts empty_world))
             (build_request (GEMINI_API_KEY ?E) ''draw'' ''gemini-3-pro-image-preview'') = Inr ?r"
    by (simp add: example_env_def answer_def)
  have 2: "status_code ?r = 200" by simp
  have 3: "loads ?E (body_text ?r) = Inr good_json"
    by (simp add: example_env_def example_loads_def)
  have 4: "nav_parts good_json =
             Inr ([JObj [(''text'', JStr ''ok'')]]
                  @ JObj [(''inlineData'', JObj [(''data'', JStr ''QUJD'')])] # [])"
    by (simp add: nav_parts_def good_json_def and_then_def)
  have 5: "\<forall>q\<in>set [JObj [(''text'', JStr ''ok'')]]. py_in ''inlineData'' q = Inr False"
    by simp
  have 6: "map_of [(''inlineData'', JObj [(''data'', JStr ''QUJD'')])] ''inlineData''
             = Some (JObj [(''data'', JStr ''QUJD'')])" by simp
  have 7: "map_of [(''data'', JStr ''QUJD'')] ''data'' = Some (JStr ''QUJD'')" by simp
  have 8: "''QUJD'' \<noteq> []" by simp
  have 9: "b64decode ?E ''QUJD'' = Inr [0x41, 0x42, 0x43]"
    by (simp add: example_env_def example_dec_def)
  show ?thesis
    by (rule first_inline_part_is_decoded [OF 1 2 3 4 5 6 7 8 9])
qed

subsection \<open>An answer without inline data\<close>

text \<open>
  When no part of the first candidate contains \<^verbatim>\<open>inlineData\<close> (also when the answer has no
  candidate or no parts at all) and the dump of the answer can be printed, the client
  returns \<^verbatim>\<open>None\<close> and the turn of the loop records a failure and raises nothing. When the
  dump cannot be printed, the exception leaves the client and the turn of the loop.
\<close>

lemma no_inline_data_cases:
  assumes "post E (length (posts (the_world s))) (request_for E model_id entry) = Inr r"
    and "status_code r = 200"
    and "loads E (body_text r) = Inr result"
    and "\<forall>q\<in>set (first_candidate_parts result). py_in ''inlineData'' q \<noteq> Inr True"
  shows "process_entry E model_id entry s =
           (if can_print E result
            then (s\<lparr>the_world := (the_world s)\<lparr>posts := posts (the_world s)
                                                 @ [request_for E model_id entry]\<rparr>,
                    results := dict_set (results s) (fst entry) Failure\<rparr>, None)
            else (s\<lparr>the_world := (the_world s)\<lparr>posts := posts (the_world s)
                                                 @ [request_for E model_id entry]\<rparr>\<rparr>,
                  Some UnicodeEncodeError))"
proof -
  let ?w1 = "(the_world s)\<lparr>posts := posts (the_world s) @ [request_for E model_id entry]\<rparr>"
  have g: "generate_image_with_gemini E (the_world s) (prompt (snd entry)) (title (snd entry))
             model_id = (?w1, parse_result E result)"
    using assms(1) by (simp add: generate_answered request_for_def handle_parsed [OF assms(2,3)])
  show ?thesis
  proof (cases "can_print E result")
    case True
    with parse_no_inline [OF assms(4), of E] obtain m
      where "parse_result E result = Inr (Absent m)" by auto
    with g True show ?thesis
      by (simp add: process_entry_absent)
  next
    case False
    with parse_no_inline [OF assms(4), of E]
    have "parse_result E result = Inl UnicodeEncodeError" by simp
    with g False show ?thesis
      by (simp add: process_entry_raises)
  qed
qed

text \<open>
  C8 does not hold of the code. The answer below has status 200 and a well-formed body
  whose only part is a text part, without \<^verbatim>\<open>inlineData\<close>; the text is the escape
  \<^verbatim>\<open>\ud800\<close>. Line 355 finds no image data and line 357 prints the dump of the answer,
  which a UTF-8 output cannot encode; the handler of line 363 catches the
  \<^verbatim>\<open>UnicodeEncodeError\<close> and prints the dump again on line 365, and that exception leaves
  the client: no failure is recorded for the entry and the run ends with the exception.
\<close>

theorem no_inline_data_raises:
  "loads (example_env (\<lambda>n. answer 200 surrogate_text)) surrogate_text = Inr surrogate_json
   \<and> first_candidate_parts surrogate_json = [JObj [(''text'', JStr [CHR 0xED, CHR 0xA0, CHR 0x80])]]
   \<and> snd (generate_image_with_gemini (example_env (\<lambda>n. answer 200 surrogate_text)) empty_world
            ''draw'' ''Icon'' ''gemini-3-pro-image-preview'') = Inl UnicodeEncodeError
   \<and> results (fst (process_entry (example_env (\<lambda>n. answer 200 surrogate_text))
                      ''gemini-3-pro-image-preview'' (IMAGE_PROMPTS ! 0) (start empty_world))) = []
   \<and> snd (process_entry (example_env (\<lambda>n. answer 200 surrogate_text))
            ''gemini-3-pro-image-preview'' (IMAGE_PROMPTS ! 0) (start empty_world))
       = Some UnicodeEncodeError
   \<and> snd (main (example_env (\<lambda>n. answer 200 surrogate_text)) (run_args ''all'') empty_world)
       = Raised UnicodeEncodeError"
  by (simp add: run_defs first_candidate_parts_def nav_parts_def)

subsection \<open>A body that is not JSON\<close>

text \<open>
  C2 does not hold of the code: \<^verbatim>\<open>response.json()\<close> is called on line 336, before the
  \<^verbatim>\<open>try\<close> of line 339. For an answer with status 200 whose body is not JSON the exception
  leaves the client, and with it the driver, which catches nothing.
\<close>

theorem json_error_leaves_client:
  "snd (generate_image_with_gemini (example_env (\<lambda>n. answer 200 ''<html>Bad Gateway</html>''))
          empty_world ''draw'' ''Icon'' ''gemini-3-pro-image-preview'') = Inl JSONDecodeError
   \<and> snd (main (example_env (\<lambda>n. answer 200 ''<html>Bad Gateway</html>'')) (run_args ''all'')
            empty_world) = Raised JSONDecodeError"
  by (simp add: run_defs)

section \<open>Properties of the driver\<close>

subsection \<open>The result dict and the summary\<close>

lemma dict_set_fresh: "k \<notin> fst ` set rs \<Longrightarrow> dict_set rs k v = rs @ [(k, v)]"
  by (induction rs) auto

lemma map_of_dict_set: "map_of (dict_set rs k v) = (map_of rs)(k \<mapsto> v)"
  by (induction rs) (auto simp: fun_eq_iff)

lemma keys_dict_set: "fst ` set (dict_set rs k v) = insert k (fst ` set rs)"
  by (induction rs) auto

lemma summary_loop_eq:
  "summary_loop rs (ls, n) = (ls @ map line_of rs, n + length (filter is_done (map line_of rs)))"
  by (induction rs "(ls, n)" arbitrary: ls n rule: summary_loop.induct) simp_all

lemma summary_eq:
  "summary rs = \<lparr>summary_lines = map line_of rs,
                 succeeded = length (filter is_done (map line_of rs)),
                 out_of = length IMAGE_PROMPTS\<rparr>"
  by (simp add: summary_def summary_loop_eq)

lemma line_id_line_of: "line_id (line_of kg) = fst kg"
  by (cases kg rule: line_of.cases) simp_all

subsection \<open>One turn of the loop\<close>

lemma process_entry_posts:
  "posts (the_world (fst (process_entry E model_id entry s)))
     = posts (the_world s) @ [request_for E model_id entry]"
  by (simp add: process_entry_def generate_image_with_gemini_def save_image_def request_for_def
      Let_def split: sum.splits outcome.splits)

lemma process_entry_resizes:
  "resizes (the_world (fst (process_entry E model_id entry s))) = resizes (the_world s)"
  by (simp add: process_entry_def generate_image_with_gemini_def save_image_def
      Let_def split: sum.splits outcome.splits)

lemma process_entry_saves:
  "saves (the_world (fst (process_entry E model_id entry s))) = saves (the_world s)
   \<or> (\<exists>bs. saves (the_world (fst (process_entry E model_id entry s)))
             = saves (the_world s) @ [(filename (snd entry), bs)])"
  by (simp add: process_entry_def generate_image_with_gemini_def save_image_def
      Let_def split: sum.splits outcome.splits)

lemma process_entry_files:
  "p \<noteq> path_join OUTPUT_DIR (filename (snd entry)) \<Longrightarrow>
     files (the_world (fst (process_entry E model_id entry s))) p = files (the_world s) p"
  by (simp add: process_entry_def generate_image_with_gemini_def save_image_def
      Let_def split: sum.splits outcome.splits)

lemma process_entry_done:
  "process_entry E model_id entry s = (s1, None) \<Longrightarrow>
     \<exists>g. results s1 = dict_set (results s) (fst entry) g"
  by (auto simp: process_entry_def generate_image_with_gemini_def save_image_def
      Let_def split: sum.splits outcome.splits if_splits)

lemma process_entry_raised:
  "process_entry E model_id entry s = (s1, Some e) \<Longrightarrow>
     results s1 = results s \<and> icon_path s1 = icon_path s"
  by (auto simp: process_entry_def generate_image_with_gemini_def save_image_def
      Let_def split: sum.splits outcome.splits if_splits)

lemma process_entry_icon:
  assumes "icon_recorded s" and "fst entry \<notin> fst ` set (results s)"
  shows "icon_recorded (fst (process_entry E model_id entry s))"
proof -
  have fresh: "map_of (results s) (fst entry) = None"
    using assms(2) by (simp add: map_of_eq_None_iff)
  show ?thesis
    using assms(1) fresh
    by (auto simp: process_entry_def generate_image_with_gemini_def save_image_def
        icon_recorded_def map_of_dict_set Let_def
        split: sum.splits outcome.splits option.splits gen_result.splits)
qed

lemma process_entry_keys:
  "fst ` set (results (fst (process_entry E model_id entry s)))
     \<subseteq> insert (fst entry) (fst ` set (results s))"
  by (auto simp: process_entry_def generate_image_with_gemini_def save_image_def
        keys_dict_set Let_def split: sum.splits outcome.splits)

subsection \<open>The loop\<close>


lemma main_loop_posts:
  "\<exists>n\<le>length ts.
     posts (the_world (fst (main_loop E model_id ts s)))
       = posts (the_world s) @ map (request_for E model_id) (take n ts)
     \<and> (snd (main_loop E model_id ts s) = None \<longrightarrow> n = length ts)"
proof (induction ts arbitrary: s)
  case Nil
  show ?case by simp
next
  case (Cons entry rest)
  obtain s1 x where pe: "process_entry E model_id entry s = (s1, x)"
    by (cases "process_entry E model_id entry s")
  have p1: "posts (the_world s1) = posts (the_world s) @ [request_for E model_id entry]"
    using process_entry_posts [of E model_id entry s] pe by simp
  show ?case
  proof (cases x)
    case (Some e)
    show ?thesis
    proof (rule exI [of _ "Suc 0"], intro conjI)
      show "Suc 0 \<le> length (entry # rest)" by simp
      show "posts (the_world (fst (main_loop E model_id (entry # rest) s)))
              = posts (the_world s) @ map (request_for E model_id) (take (Suc 0) (entry # rest))"
        using pe Some p1 by simp
      show "snd (main_loop E model_id (entry # rest) s) = None \<longrightarrow> Suc 0 = length (entry # rest)"
        using pe Some by simp
    qed
  next
    case None
    from Cons.IH [of s1] obtain n where n: "n \<le> length rest"
      "posts (the_world (fst (main_loop E model_id rest s1)))
         = posts (the_world s1) @ map (request_for E model_id) (take n rest)"
      "snd (main_loop E model_id rest s1) = None \<longrightarrow> n = length rest"
      by auto
    have "main_loop E model_id (entry # rest) s = main_loop E model_id rest s1"
      using pe None by simp
    then show ?thesis
      using n p1 by (intro exI [of _ "Suc n"]) simp
  qed
qed

lemma main_loop_resizes:
  "resizes (the_world (fst (main_loop E model_id ts s))) = resizes (the_world s)"
proof (induction ts arbitrary: s)
  case Nil
  show ?case by simp
next
  case (Cons entry rest)
  obtain s1 x where pe: "process_entry E model_id entry s = (s1, x)"
    by (cases "process_entry E model_id entry s")
  have "resizes (the_world s1) = resizes (the_world s)"
    using process_entry_resizes [of E model_id entry s] pe by simp
  then show ?case
    using pe Cons.IH [of s1] by (cases x) simp_all
qed

lemma main_loop_results:
  assumes "main_loop E model_id ts s = (s', None)"
    and "distinct (map fst ts)"
    and "fst ` set ts \<inter> fst ` set (results s) = {}"
  shows "\<exists>gs. length gs = length ts \<and> results s' = results s @ zip (map fst ts) gs"
  using assms
proof (induction ts arbitrary: s)
  case Nil
  then show ?case by simp
next
  case (Cons entry rest)
  obtain s1 x where pe: "process_entry E model_id entry s = (s1, x)"
    by (cases "process_entry E model_id entry s")
  from Cons.prems(1) pe have x: "x = None" and rest: "main_loop E model_id rest s1 = (s', None)"
    by (cases x; simp)+
  from process_entry_done [OF pe [unfolded x]] obtain g
    where "results s1 = dict_set (results s) (fst entry) g" by blast
  moreover have "fst entry \<notin> fst ` set (results s)"
    using Cons.prems(3) by auto
  ultimately have r1: "results s1 = results s @ [(fst entry, g)]"
    by (simp add: dict_set_fresh)
  have "fst ` set rest \<inter> fst ` set (results s1) = {}"
    using Cons.prems(2,3) r1 by auto
  from Cons.IH [OF rest _ this] Cons.prems(2) obtain gs
    where "length gs = length rest" "results s' = results s1 @ zip (map fst rest) gs"
    by auto
  then show ?case
    using r1 by (intro exI [of _ "g # gs"]) simp
qed

lemma process_entry_expected:
  assumes "process_entry E model_id entry s = (s1, None)"
  shows "results s1
           = dict_set (results s) (fst entry)
               (entry_result E model_id (length (posts (the_world s))) entry)
         \<and> saves (the_world s1)
           = saves (the_world s) @ entry_saves E model_id (length (posts (the_world s))) entry"
  using assms
  by (auto simp: process_entry_def generate_image_with_gemini_def save_image_def
      client_answer_def entry_result_def entry_saves_def request_for_def Let_def
      split: sum.splits outcome.splits if_splits)

lemma main_loop_expected:
  assumes "main_loop E model_id ts s = (s', None)"
    and "distinct (map fst ts)"
    and "fst ` set ts \<inter> fst ` set (results s) = {}"
  shows "results s' = results s @ expected_results E model_id (length (posts (the_world s))) ts
         \<and> saves (the_world s')
           = saves (the_world s) @ expected_saves E model_id (length (posts (the_world s))) ts"
  using assms
proof (induction ts arbitrary: s)
  case Nil
  then show ?case by simp
next
  case (Cons entry rest)
  obtain s1 x where pe: "process_entry E model_id entry s = (s1, x)"
    by (cases "process_entry E model_id entry s")
  from Cons.prems(1) pe have x: "x = None" and rest: "main_loop E model_id rest s1 = (s', None)"
    by (cases x; simp)+
  have fresh: "fst entry \<notin> fst ` set (results s)"
    using Cons.prems(3) by auto
  from process_entry_expected [OF pe [unfolded x]]
  have r1: "results s1
              = results s @ [(fst entry, entry_result E model_id (length (posts (the_world s))) entry)]"
    and s1: "saves (the_world s1)
               = saves (the_world s) @ entry_saves E model_id (length (posts (the_world s))) entry"
    by (simp_all add: dict_set_fresh [OF fresh])
  have p1: "length (posts (the_world s1)) = Suc (length (posts (the_world s)))"
    using process_entry_posts [of E model_id entry s] pe by simp
  have "fst ` set rest \<inter> fst ` set (results s1) = {}"
    using Cons.prems(2,3) r1 by auto
  from Cons.IH [OF rest _ this] Cons.prems(2)
  have "results s' = results s1 @ expected_results E model_id (length (posts (the_world s1))) rest"
    and "saves (the_world s')
           = saves (the_world s1) @ expected_saves E model_id (length (posts (the_world s1))) rest"
    by simp_all
  then show ?case
    using r1 s1 p1 by simp
qed

lemma disjoint_step:
  "R1 \<subseteq> insert k R \<Longrightarrow> k \<notin> A \<Longrightarrow> A \<inter> R = {} \<Longrightarrow> A \<inter> R1 = {}"
  by blast

lemma main_loop_icon:
  assumes "icon_recorded s"
    and "distinct (map fst ts)"
    and "fst ` set ts \<inter> fst ` set (results s) = {}"
  shows "icon_recorded (fst (main_loop E model_id ts s))"
  using assms
proof (induction ts arbitrary: s)
  case Nil
  then show ?case by simp
next
  case (Cons entry rest)
  obtain s1 x where pe: "process_entry E model_id entry s = (s1, x)"
    by (cases "process_entry E model_id entry s")
  have fresh: "fst entry \<notin> fst ` set (results s)"
    using Cons.prems(3) by auto
  have i1: "icon_recorded s1"
    using process_entry_icon [OF Cons.prems(1) fresh, of E model_id] pe by simp
  have "fst ` set (results s1) \<subseteq> insert (fst entry) (fst ` set (results s))"
    using process_entry_keys [of E model_id entry s] pe by simp
  moreover have "fst entry \<notin> fst ` set rest"
    using Cons.prems(2) by auto
  moreover have "fst ` set rest \<inter> fst ` set (results s) = {}"
    using Cons.prems(3) by auto
  ultimately have d1: "fst ` set rest \<inter> fst ` set (results s1) = {}"
    by (rule disjoint_step)
  show ?case
  proof (cases x)
    case (Some e)
    then show ?thesis using pe i1 by simp
  next
    case None
    then show ?thesis
      using pe Cons.IH [OF i1 _ d1] Cons.prems(2) by simp
  qed
qed

subsection \<open>After the loop\<close>

lemma resize_loop_logs:
  "posts (fst (resize_loop E rs img sizes w)) = posts w
   \<and> saves (fst (resize_loop E rs img sizes w)) = saves w
   \<and> resizes (fst (resize_loop E rs img sizes w)) = resizes w"
  by (induction sizes arbitrary: w) (simp_all add: Let_def split: sum.splits)

lemma resize_loop_files:
  "p \<notin> icon_size_path ` set sizes \<Longrightarrow> files (fst (resize_loop E rs img sizes w)) p = files w p"
  by (induction sizes arbitrary: w) (simp_all add: Let_def split: sum.splits)

lemma create_icon_sizes_logs:
  "posts (fst (create_icon_sizes E w p)) = posts w
   \<and> saves (fst (create_icon_sizes E w p)) = saves w
   \<and> resizes (fst (create_icon_sizes E w p)) = resizes w @ [p]"
  by (simp add: create_icon_sizes_def Let_def resize_loop_logs del: resize_loop.simps
      split: option.splits)

lemma create_icon_sizes_files:
  "q \<notin> icon_size_path ` {16, 32, 48} \<Longrightarrow> files (fst (create_icon_sizes E w p)) q = files w q"
  by (simp add: create_icon_sizes_def Let_def resize_loop_files del: resize_loop.simps
      split: option.splits)

lemma resize_step_logs:
  "posts (fst (resize_step E s)) = posts (the_world s)
   \<and> saves (fst (resize_step E s)) = saves (the_world s)"
  by (simp add: resize_step_def create_icon_sizes_logs split: option.splits)

lemma resize_step_resizes:
  "resizes (fst (resize_step E s)) = resizes (the_world s)
   \<or> (\<exists>p. icon_path s = Some p \<and> resizes (fst (resize_step E s)) = resizes (the_world s) @ [p])"
  by (simp add: resize_step_def create_icon_sizes_logs split: option.splits)

lemma resize_step_files:
  "q \<notin> icon_size_path ` {16, 32, 48} \<Longrightarrow> files (fst (resize_step E s)) q = files (the_world s) q"
  by (simp add: resize_step_def create_icon_sizes_files split: option.splits)

lemma resize_step_no_icon:
  "icon_path s = None \<Longrightarrow> resize_step E s = (the_world s, None)"
  by (simp add: resize_step_def)

subsection \<open>The whole run\<close>

lemma catalog_keys_distinct: "distinct (map fst IMAGE_PROMPTS)"
  by (simp add: IMAGE_PROMPTS_def)

lemma all_is_no_key: "map_of IMAGE_PROMPTS ''all'' = None"
  by (simp add: IMAGE_PROMPTS_def)

lemma select_targets_cases:
  assumes "select_targets t = Inr ts"
  shows "(t = ''all'' \<and> ts = IMAGE_PROMPTS) \<or> (\<exists>c. map_of IMAGE_PROMPTS t = Some c \<and> ts = [(t, c)])"
  using assms by (auto simp: select_targets_def split: if_splits option.splits)

lemma select_targets_distinct:
  assumes "select_targets t = Inr ts"
  shows "distinct (map fst ts)"
  using select_targets_cases [OF assms] catalog_keys_distinct by auto

lemma main_run:
  assumes "\<not> list_models a"
    and "map_of AVAILABLE_MODELS (model a) = Some model_id"
    and "select_targets (target a) = Inr ts"
  shows "main E a w =
           (case main_loop E model_id ts (start w) of
              (s, Some e) \<Rightarrow> (the_world s, Raised e)
            | (s, None) \<Rightarrow>
                (case resize_step E s of
                   (w1, Some e) \<Rightarrow> (w1, Raised e)
                 | (w1, None) \<Rightarrow> (w1, Finished (summary (results s)))))"
  using assms by (simp add: main_def)

lemma main_finished:
  assumes "\<not> list_models a"
    and "map_of AVAILABLE_MODELS (model a) = Some model_id"
    and "select_targets (target a) = Inr ts"
    and "snd (main E a w) = Finished rep"
  shows "\<exists>s. main_loop E model_id ts (start w) = (s, None)
             \<and> snd (resize_step E s) = None
             \<and> fst (main E a w) = fst (resize_step E s)
             \<and> rep = summary (results s)"
  using assms(4) unfolding main_run [OF assms(1,2,3)]
  by (auto split: prod.splits option.splits)

lemma main_posts:
  assumes "\<not> list_models a"
    and "map_of AVAILABLE_MODELS (model a) = Some model_id"
    and "select_targets (target a) = Inr ts"
  shows "posts (fst (main E a w)) = posts (the_world (fst (main_loop E model_id ts (start w))))"
  unfolding main_run [OF assms]
  using resize_step_logs [of E "fst (main_loop E model_id ts (start w))"]
  by (auto split: prod.splits option.splits)

lemma main_saves:
  assumes "\<not> list_models a"
    and "map_of AVAILABLE_MODELS (model a) = Some model_id"
    and "select_targets (target a) = Inr ts"
  shows "saves (fst (main E a w)) = saves (the_world (fst (main_loop E model_id ts (start w))))"
  unfolding main_run [OF assms]
  using resize_step_logs [of E "fst (main_loop E model_id ts (start w))"]
  by (auto split: prod.splits option.splits)

lemma map_fst_zip_same:
  "length gs = length ts \<Longrightarrow> map fst (zip (map fst ts) gs) = map fst ts"
  by (rule map_fst_zip) simp

lemma summary_ids: "map line_id (summary_lines (summary rs)) = map fst rs"
  by (simp add: summary_eq line_id_line_of)

lemma catalog_files_distinct: "distinct (map (\<lambda>e. filename (snd e)) IMAGE_PROMPTS)"
  by (simp add: IMAGE_PROMPTS_def)

lemma icon_size_paths:
  "icon_size_path ` {16, 32, 48} = {''assets/icon16.png'', ''assets/icon32.png'', ''assets/icon48.png''}"
  by (simp add: icon_size_path_def path_join_def OUTPUT_DIR_def str_nat.simps digit_def)

lemma catalog_files_not_icon_sizes:
  "e \<in> set IMAGE_PROMPTS \<Longrightarrow> path_join OUTPUT_DIR (filename (snd e)) \<notin> icon_size_path ` {16, 32, 48}"
  unfolding icon_size_paths
  by (auto simp: IMAGE_PROMPTS_def path_join_def OUTPUT_DIR_def)

lemma catalog_file_of_key:
  assumes "e \<in> set IMAGE_PROMPTS" and "e' \<in> set IMAGE_PROMPTS"
    and "filename (snd e) = filename (snd e')"
  shows "e = e'"
proof -
  have "inj_on (\<lambda>e. filename (snd e)) (set IMAGE_PROMPTS)"
    using catalog_files_distinct by (simp add: distinct_map)
  then show ?thesis
    using assms by (auto dest: inj_onD)
qed

lemma main_files:
  assumes "\<not> list_models a"
    and "map_of AVAILABLE_MODELS (model a) = Some model_id"
    and "select_targets (target a) = Inr ts"
    and "q \<notin> icon_size_path ` {16, 32, 48}"
  shows "files (fst (main E a w)) q = files (the_world (fst (main_loop E model_id ts (start w)))) q"
  unfolding main_run [OF assms(1,2,3)]
  using resize_step_files [OF assms(4), of E "fst (main_loop E model_id ts (start w))"]
  by (auto split: prod.splits option.splits)

lemma main_loop_single:
  "main_loop E model_id [entry] s = process_entry E model_id entry s"
  by (simp split: prod.splits option.splits)

lemma main_world:
  assumes "\<not> list_models a"
    and "map_of AVAILABLE_MODELS (model a) = Some model_id"
    and "select_targets (target a) = Inr ts"
  shows "fst (main E a w) =
           (case main_loop E model_id ts (start w) of
              (s, Some e) \<Rightarrow> the_world s
            | (s, None) \<Rightarrow> fst (resize_step E s))"
  unfolding main_run [OF assms]
  by (auto split: prod.splits option.splits)

lemma main_unchanged:
  "list_models a \<or> map_of AVAILABLE_MODELS (model a) = None \<or> (\<exists>e. select_targets (target a) = Inl e)
     \<Longrightarrow> fst (main E a w) = w"
  by (auto simp: main_def split: option.splits)

lemma icon_recorded_start: "icon_recorded (start w)"
  by (simp add: icon_recorded_def start_def)

lemma icon_recorded_Some:
  "icon_recorded s \<Longrightarrow> icon_path s = Some p \<Longrightarrow> \<exists>f. map_of (results s) ''icon'' = Some (Success f p)"
  by (auto simp: icon_recorded_def split: option.splits gen_result.splits)

lemma icon_in_targets:
  assumes "select_targets t = Inr ts" and "''icon'' \<in> fst ` set ts"
  shows "t = ''icon'' \<or> t = ''all''"
  using select_targets_cases [OF assms(1)] assms(2) by auto



section \<open>Whole runs of the driver\<close>

text \<open>
  C1 does not hold of the code: line 502 prints \<^verbatim>\<open>len(IMAGE_PROMPTS)\<close>, the size of the whole
  catalog, after \<open>success_count\<close>, which the loop before it counts over the requested
  entries only. A run for the single target \<^verbatim>\<open>icon\<close> whose generation succeeds reports
  one success out of six.
\<close>

theorem single_target_tally_counts_catalog:
  "snd (main (example_env (\<lambda>n. answer 200 good_text)) (run_args ''icon'') empty_world) =
     Finished \<lparr>summary_lines = [Done ''icon'' ''icon128.png''], succeeded = 1, out_of = 6\<rparr>"
  by (simp add: run_defs)

text \<open>
  C5, as the specification states it, fails: nothing in \<open>main\<close> catches an exception, so
  an entry that raises ends the run and the entries after it are not processed. In the
  run below the target is \<^verbatim>\<open>all\<close> and no file can be written: the first entry is generated,
  \<open>save_image\<close> raises, and one request of the six has been sent.
\<close>

theorem all_stops_at_first_exception:
  "length IMAGE_PROMPTS = 6
   \<and> snd (main (read_only_env (\<lambda>n. answer 200 good_text)) (run_args ''all'') empty_world)
       = Raised OSError
   \<and> posts (fst (main (read_only_env (\<lambda>n. answer 200 good_text)) (run_args ''all'') empty_world))
       = [request_for (read_only_env (\<lambda>n. answer 200 good_text)) ''gemini-3-pro-image-preview''
            (IMAGE_PROMPTS ! 0)]"
  by (simp add: run_defs read_only_env_def request_for_def)

text \<open>
  C5, amended. In a generation run (the models are not just listed, and the model name is
  one of the table) with the target \<^verbatim>\<open>all\<close> the driver goes through the catalog, whose keys
  are distinct, in the order of its definition: the requests sent are those of the first
  \<open>n\<close> catalog entries in that order, one each, for some \<open>n\<close>. In a run that reaches the
  summary \<open>n\<close> is the size of the catalog, so every entry was processed exactly once and
  in catalog order; the summary has one line per catalog entry in that order, each line
  being the one that the answer to that entry's request determines; and \<open>save_image\<close> was
  called, in catalog order, for exactly the entries whose generation returned bytes that
  are not empty. (A run that an uncaught exception ends has processed the entries up to
  the one that raised, and no later one.)
\<close>

theorem all_processes_catalog_in_order:
  assumes "target a = ''all''"
    and "\<not> list_models a"
    and "map_of AVAILABLE_MODELS (model a) = Some model_id"
  shows "distinct (map fst IMAGE_PROMPTS)
         \<and> (\<exists>n\<le>length IMAGE_PROMPTS.
               posts (fst (main E a w))
                 = posts w @ map (request_for E model_id) (take n IMAGE_PROMPTS)
               \<and> (\<forall>rep. snd (main E a w) = Finished rep \<longrightarrow>
                     n = length IMAGE_PROMPTS
                     \<and> map line_id (summary_lines rep) = map fst IMAGE_PROMPTS
                     \<and> summary_lines rep
                         = map line_of (expected_results E model_id (length (posts w))
                                          IMAGE_PROMPTS)
                     \<and> saves (fst (main E a w))
                         = saves w @ expected_saves E model_id (length (posts w))
                                       IMAGE_PROMPTS))"
proof -
  have sel: "select_targets (target a) = Inr IMAGE_PROMPTS"
    using assms(1) by (simp add: select_targets_def)
  note run = assms(2,3) sel
  from main_loop_posts [of IMAGE_PROMPTS E model_id "start w"] obtain n
    where n: "n \<le> length IMAGE_PROMPTS"
      "posts (the_world (fst (main_loop E model_id IMAGE_PROMPTS (start w))))
         = posts w @ map (request_for E model_id) (take n IMAGE_PROMPTS)"
      "snd (main_loop E model_id IMAGE_PROMPTS (start w)) = None \<longrightarrow> n = length IMAGE_PROMPTS"
    by (auto simp: start_def)
  have fin: "n = length IMAGE_PROMPTS
             \<and> map line_id (summary_lines rep) = map fst IMAGE_PROMPTS
             \<and> summary_lines rep
                 = map line_of (expected_results E model_id (length (posts w)) IMAGE_PROMPTS)
             \<and> saves (fst (main E a w))
                 = saves w @ expected_saves E model_id (length (posts w)) IMAGE_PROMPTS"
    if "snd (main E a w) = Finished rep" for rep
  proof -
    from main_finished [OF run that] obtain s
      where s: "main_loop E model_id IMAGE_PROMPTS (start w) = (s, None)"
        and rep: "rep = summary (results s)"
      by auto
    from main_loop_expected [OF s catalog_keys_distinct]
    have ex: "results s = expected_results E model_id (length (posts w)) IMAGE_PROMPTS"
      and sv: "saves (the_world s)
                 = saves w @ expected_saves E model_id (length (posts w)) IMAGE_PROMPTS"
      by (simp_all add: start_def)
    from main_loop_results [OF s catalog_keys_distinct] obtain gs
      where "length gs = length IMAGE_PROMPTS"
        "results s = zip (map fst IMAGE_PROMPTS) gs"
      by (auto simp: start_def)
    then have "map fst (results s) = map fst IMAGE_PROMPTS"
      by (simp only: map_fst_zip_same)
    then have 2: "map line_id (summary_lines rep) = map fst IMAGE_PROMPTS"
      unfolding rep by (simp only: summary_ids)
    have 1: "n = length IMAGE_PROMPTS"
      using n(3) s by simp
    have 3: "summary_lines rep
               = map line_of (expected_results E model_id (length (posts w)) IMAGE_PROMPTS)"
      unfolding rep ex by (simp add: summary_eq)
    have "saves (fst (main E a w)) = saves (the_world s)"
      using main_saves [OF run, of E w] s by simp
    then have 4: "saves (fst (main E a w))
                    = saves w @ expected_saves E model_id (length (posts w)) IMAGE_PROMPTS"
      using sv by simp
    from 1 2 3 4 show ?thesis by blast
  qed
  have "posts (fst (main E a w)) = posts w @ map (request_for E model_id) (take n IMAGE_PROMPTS)"
    using main_posts [OF run, of E w] n(2) by simp
  with n(1) fin
  have "n \<le> length IMAGE_PROMPTS
        \<and> posts (fst (main E a w)) = posts w @ map (request_for E model_id) (take n IMAGE_PROMPTS)
        \<and> (\<forall>rep. snd (main E a w) = Finished rep \<longrightarrow>
               n = length IMAGE_PROMPTS
               \<and> map line_id (summary_lines rep) = map fst IMAGE_PROMPTS
               \<and> summary_lines rep
                   = map line_of (expected_results E model_id (length (posts w)) IMAGE_PROMPTS)
               \<and> saves (fst (main E a w))
                   = saves w @ expected_saves E model_id (length (posts w)) IMAGE_PROMPTS)"
    by blast
  then have "\<exists>n\<le>length IMAGE_PROMPTS.
               posts (fst (main E a w)) = posts w @ map (request_for E model_id) (take n IMAGE_PROMPTS)
               \<and> (\<forall>rep. snd (main E a w) = Finished rep \<longrightarrow>
                      n = length IMAGE_PROMPTS
                      \<and> map line_id (summary_lines rep) = map fst IMAGE_PROMPTS
                      \<and> summary_lines rep
                          = map line_of (expected_results E model_id (length (posts w)) IMAGE_PROMPTS)
                      \<and> saves (fst (main E a w))
                          = saves w @ expected_saves E model_id (length (posts w)) IMAGE_PROMPTS)"
    by (rule exI)
  with catalog_keys_distinct show ?thesis
    by (rule conjI)
qed

theorem all_processes_catalog_in_order_witness:
  "snd (main (example_env (\<lambda>n. answer 200 good_text)) (run_args ''all'') empty_world) =
     Finished \<lparr>summary_lines =
        [Done ''icon'' ''icon128.png'',
         Done ''promo_small'' ''promo_small_440x280.png'',
         Done ''promo_large'' ''promo_large_920x680.png'',
         Done ''screenshot_popup'' ''screenshot_popup_1280x800.png'',
         Done ''screenshot_result'' ''screenshot_result_1280x800.png'',
         Done ''screenshot_options'' ''screenshot_options_1280x800.png''],
        succeeded = 6, out_of = 6\<rparr>
   \<and> posts (fst (main (example_env (\<lambda>n. answer 200 good_text)) (run_args ''all'') empty_world))
       = map (request_for (example_env (\<lambda>n. answer 200 good_text)) ''gemini-3-pro-image-preview'')
           IMAGE_PROMPTS
   \<and> saves (fst (main (example_env (\<lambda>n. answer 200 good_text)) (run_args ''all'') empty_world))
       = [(''icon128.png'', [0x41, 0x42, 0x43]),
          (''promo_small_440x280.png'', [0x41, 0x42, 0x43]),
          (''promo_large_920x680.png'', [0x41, 0x42, 0x43]),
          (''screenshot_popup_1280x800.png'', [0x41, 0x42, 0x43]),
          (''screenshot_result_1280x800.png'', [0x41, 0x42, 0x43]),
          (''screenshot_options_1280x800.png'', [0x41, 0x42, 0x43])]"
proof -
  let ?E = "example_env (\<lambda>n. answer 200 good_text)"
  let ?a = "run_args ''all''"
  let ?m = "''gemini-3-pro-image-preview''"
  have h1: "target ?a = ''all''" by (simp add: run_args_def)
  have h2: "\<not> list_models ?a" by (simp add: run_args_def)
  have h3: "map_of AVAILABLE_MODELS (model ?a) = Some ?m"
    by (simp add: run_args_def AVAILABLE_MODELS_def DEFAULT_MODEL_def)
  have ev: "snd (main ?E ?a empty_world) =
     Finished \<lparr>summary_lines =
        [Done ''icon'' ''icon128.png'',
         Done ''promo_small'' ''promo_small_440x280.png'',
         Done ''promo_large'' ''promo_large_920x680.png'',
         Done ''screenshot_popup'' ''screenshot_popup_1280x800.png'',
         Done ''screenshot_result'' ''screenshot_result_1280x800.png'',
         Done ''screenshot_options'' ''screenshot_options_1280x800.png''],
        succeeded = 6, out_of = 6\<rparr>"
    by (simp add: run_defs)
  have es: "expected_saves ?E ?m 0 IMAGE_PROMPTS
              = [(''icon128.png'', [0x41, 0x42, 0x43]),
                 (''promo_small_440x280.png'', [0x41, 0x42, 0x43]),
                 (''promo_large_920x680.png'', [0x41, 0x42, 0x43]),
                 (''screenshot_popup_1280x800.png'', [0x41, 0x42, 0x43]),
                 (''screenshot_result_1280x800.png'', [0x41, 0x42, 0x43]),
                 (''screenshot_options_1280x800.png'', [0x41, 0x42, 0x43])]"
    by (simp add: run_defs entry_saves_def client_answer_def request_for_def)
  have pw: "posts empty_world = []" and sw: "saves empty_world = []"
    by (simp_all add: empty_world_def)
  from all_processes_catalog_in_order [OF h1 h2 h3, of ?E empty_world] obtain n
    where n: "posts (fst (main ?E ?a empty_world))
                = posts empty_world @ map (request_for ?E ?m) (take n IMAGE_PROMPTS)"
      "\<forall>rep. snd (main ?E ?a empty_world) = Finished rep \<longrightarrow>
         n = length IMAGE_PROMPTS
         \<and> saves (fst (main ?E ?a empty_world))
             = saves empty_world @ expected_saves ?E ?m (length (posts empty_world)) IMAGE_PROMPTS"
    by auto
  from n(2) ev have "n = length IMAGE_PROMPTS"
    and "saves (fst (main ?E ?a empty_world))
           = saves empty_world @ expected_saves ?E ?m (length (posts empty_world)) IMAGE_PROMPTS"
    by simp_all
  then show ?thesis
    using n(1) ev by (simp add: pw sw es)
qed


text \<open>
  C6. With a single catalog key as target, exactly one request is sent, the one for that
  entry; \<open>save_image\<close> is called at most once and then with that entry's file name; the
  summary, when the run reaches it, has the one line of that entry; and the file of every
  other catalog entry is left as it was.
\<close>

theorem single_target_processes_only_that_entry:
  assumes "map_of IMAGE_PROMPTS t = Some cfg"
    and "target a = t"
    and "\<not> list_models a"
    and "map_of AVAILABLE_MODELS (model a) = Some model_id"
  shows "posts (fst (main E a w)) = posts w @ [request_for E model_id (t, cfg)]
         \<and> (saves (fst (main E a w)) = saves w
              \<or> (\<exists>bs. saves (fst (main E a w)) = saves w @ [(filename cfg, bs)]))
         \<and> (\<forall>rep. snd (main E a w) = Finished rep \<longrightarrow> map line_id (summary_lines rep) = [t])
         \<and> (\<forall>k c. (k, c) \<in> set IMAGE_PROMPTS \<longrightarrow> k \<noteq> t \<longrightarrow>
                files (fst (main E a w)) (path_join OUTPUT_DIR (filename c))
                  = files w (path_join OUTPUT_DIR (filename c)))"
proof -
  have "t \<noteq> ''all''"
    using assms(1) all_is_no_key by auto
  then have sel: "select_targets (target a) = Inr [(t, cfg)]"
    using assms(1,2) by (simp add: select_targets_def)
  note run = assms(3,4) sel
  let ?s = "fst (main_loop E model_id [(t, cfg)] (start w))"
  have s: "?s = fst (process_entry E model_id (t, cfg) (start w))"
    by (simp only: main_loop_single)
  have p: "posts (fst (main E a w)) = posts w @ [request_for E model_id (t, cfg)]"
    unfolding main_posts [OF run] s process_entry_posts by (simp add: start_def)
  have sv: "saves (fst (main E a w)) = saves w
            \<or> (\<exists>bs. saves (fst (main E a w)) = saves w @ [(filename cfg, bs)])"
    unfolding main_saves [OF run] s
    using process_entry_saves [of E model_id "(t, cfg)" "start w"] by (simp add: start_def)
  have fin: "map line_id (summary_lines rep) = [t]" if "snd (main E a w) = Finished rep" for rep
  proof -
    from main_finished [OF run that] obtain s1
      where s1: "main_loop E model_id [(t, cfg)] (start w) = (s1, None)"
        and rep: "rep = summary (results s1)"
      by auto
    from main_loop_results [OF s1] obtain gs
      where "length gs = length [(t, cfg)]" "results s1 = zip (map fst [(t, cfg)]) gs"
      by (auto simp: start_def)
    then have "map fst (results s1) = map fst [(t, cfg)]"
      by (simp only: map_fst_zip_same)
    then show ?thesis
      using rep by (simp add: summary_ids)
  qed
  have fl: "files (fst (main E a w)) (path_join OUTPUT_DIR (filename c))
              = files w (path_join OUTPUT_DIR (filename c))"
    if "(k, c) \<in> set IMAGE_PROMPTS" and "k \<noteq> t" for k c
  proof -
    have "(t, cfg) \<in> set IMAGE_PROMPTS"
      using assms(1) by (rule map_of_SomeD)
    with that have "filename c \<noteq> filename cfg"
      using catalog_file_of_key [of "(k, c)" "(t, cfg)"] by auto
    then have ne: "path_join OUTPUT_DIR (filename c) \<noteq> path_join OUTPUT_DIR (filename (snd (t, cfg)))"
      by (simp add: path_join_def)
    have "files (fst (main E a w)) (path_join OUTPUT_DIR (filename c))
            = files (the_world ?s) (path_join OUTPUT_DIR (filename c))"
      using catalog_files_not_icon_sizes [OF that(1)] main_files [OF run] by simp
    also have "\<dots> = files (the_world (start w)) (path_join OUTPUT_DIR (filename c))"
      unfolding s by (rule process_entry_files [OF ne])
    finally show ?thesis by (simp add: start_def)
  qed
  from p sv fin fl show ?thesis by blast
qed

theorem single_target_processes_only_that_entry_witness:
  "posts (fst (main (example_env (\<lambda>n. answer 200 good_text)) (run_args ''promo_small'')
                 empty_world))
     = [request_for (example_env (\<lambda>n. answer 200 good_text)) ''gemini-3-pro-image-preview''
          (IMAGE_PROMPTS ! 1)]
   \<and> saves (fst (main (example_env (\<lambda>n. answer 200 good_text)) (run_args ''promo_small'')
                    empty_world))
       = [(''promo_small_440x280.png'', [0x41, 0x42, 0x43])]
   \<and> files (fst (main (example_env (\<lambda>n. answer 200 good_text)) (run_args ''promo_small'')
                    empty_world)) (path_join OUTPUT_DIR ''icon128.png'') = None"
proof -
  let ?E = "example_env (\<lambda>n. answer 200 good_text)"
  let ?a = "run_args ''promo_small''"
  have e1: "IMAGE_PROMPTS ! 1 = (''promo_small'', snd (IMAGE_PROMPTS ! 1))"
    by (simp add: IMAGE_PROMPTS_def)
  have h1: "map_of IMAGE_PROMPTS ''promo_small'' = Some (snd (IMAGE_PROMPTS ! 1))"
    by (simp add: IMAGE_PROMPTS_def)
  have h2: "target ?a = ''promo_small''" by (simp add: run_args_def)
  have h3: "\<not> list_models ?a" by (simp add: run_args_def)
  have h4: "map_of AVAILABLE_MODELS (model ?a) = Some ''gemini-3-pro-image-preview''"
    by (simp add: run_args_def AVAILABLE_MODELS_def DEFAULT_MODEL_def)
  have icon: "(''icon'', snd (IMAGE_PROMPTS ! 0)) \<in> set IMAGE_PROMPTS"
    and fn: "filename (snd (IMAGE_PROMPTS ! 0)) = ''icon128.png''"
    by (simp_all add: IMAGE_PROMPTS_def)
  have sv: "saves (fst (main ?E ?a empty_world)) = [(''promo_small_440x280.png'', [0x41, 0x42, 0x43])]"
    by (simp add: run_defs)
  note inst = single_target_processes_only_that_entry [OF h1 h2 h3 h4, of ?E empty_world]
  from inst have "posts (fst (main ?E ?a empty_world))
                   = posts empty_world
                     @ [request_for ?E ''gemini-3-pro-image-preview'' (IMAGE_PROMPTS ! 1)]"
    using e1 by simp
  moreover from inst icon
  have "files (fst (main ?E ?a empty_world)) (path_join OUTPUT_DIR (filename (snd (IMAGE_PROMPTS ! 0))))
          = files empty_world (path_join OUTPUT_DIR (filename (snd (IMAGE_PROMPTS ! 0))))"
    by simp
  ultimately show ?thesis
    using sv by (simp add: fn empty_world_def)
qed








text \<open>
  C9. In every run \<open>create_icon_sizes\<close> is called either not at all or exactly once, and
  when it is called the target was \<^verbatim>\<open>icon\<close> or \<^verbatim>\<open>all\<close>, the loop ended without an exception,
  and the result recorded for \<^verbatim>\<open>icon\<close> is a success whose path is the one handed to the
  call.
\<close>

theorem icon_derivation_only_after_icon_success:
  "resizes (fst (main E a w)) = resizes w
   \<or> (\<exists>ts model_id s f p.
         select_targets (target a) = Inr ts
         \<and> map_of AVAILABLE_MODELS (model a) = Some model_id
         \<and> (target a = ''icon'' \<or> target a = ''all'')
         \<and> main_loop E model_id ts (start w) = (s, None)
         \<and> map_of (results s) ''icon'' = Some (Success f p)
         \<and> resizes (fst (main E a w)) = resizes w @ [p])"
proof (cases "list_models a \<or> map_of AVAILABLE_MODELS (model a) = None
              \<or> (\<exists>e. select_targets (target a) = Inl e)")
  case True
  then show ?thesis
    by (simp only: main_unchanged [OF True] simp_thms)
next
  case False
  then obtain model_id ts
    where run: "\<not> list_models a" "map_of AVAILABLE_MODELS (model a) = Some model_id"
      "select_targets (target a) = Inr ts"
    by (cases "select_targets (target a)") auto
  obtain s x where ml: "main_loop E model_id ts (start w) = (s, x)"
    by (cases "main_loop E model_id ts (start w)")
  have rs: "resizes (the_world s) = resizes w"
    using main_loop_resizes [of E model_id ts "start w"] ml by (simp add: start_def)
  show ?thesis
  proof (cases x)
    case (Some e)
    then have "fst (main E a w) = the_world s"
      using main_world [OF run, of E w] ml by simp
    then show ?thesis using rs by simp
  next
    case None
    then have fm: "fst (main E a w) = fst (resize_step E s)"
      using main_world [OF run, of E w] ml by simp
    from resize_step_resizes [of E s] show ?thesis
    proof
      assume "resizes (fst (resize_step E s)) = resizes (the_world s)"
      then show ?thesis using fm rs by simp
    next
      assume "\<exists>p. icon_path s = Some p
                \<and> resizes (fst (resize_step E s)) = resizes (the_world s) @ [p]"
      then obtain p where p: "icon_path s = Some p"
        "resizes (fst (resize_step E s)) = resizes (the_world s) @ [p]"
        by auto
      have "icon_recorded s"
        using main_loop_icon [OF icon_recorded_start select_targets_distinct [OF run(3)],
            of w E model_id] ml
        by (simp add: start_def)
      from icon_recorded_Some [OF this p(1)] obtain f
        where f: "map_of (results s) ''icon'' = Some (Success f p)" by auto
      from main_loop_results [OF ml [unfolded None] select_targets_distinct [OF run(3)]]
      obtain gs where "length gs = length ts" "results s = zip (map fst ts) gs"
        by (auto simp: start_def)
      then have "map fst (results s) = map fst ts"
        by (simp only: map_fst_zip_same)
      moreover have "''icon'' \<in> fst ` set (results s)"
        using f by (auto dest: map_of_SomeD intro: rev_image_eqI)
      ultimately have "''icon'' \<in> fst ` set ts"
        by (metis set_map)
      from icon_in_targets [OF run(3) this] have t: "target a = ''icon'' \<or> target a = ''all''" .
      have "resizes (fst (main E a w)) = resizes w @ [p]"
        using fm p(2) rs by simp
      with run(2,3) t ml [unfolded None] f show ?thesis
        by blast
    qed
  qed
qed

theorem icon_derivation_only_after_icon_success_witness:
  "resizes (fst (main (example_env (\<lambda>n. answer 200 good_text)) (run_args ''icon'') empty_world))
     = [''assets/icon128.png'']
   \<and> (\<exists>ts model_id s f p.
         select_targets (target (run_args ''icon'')) = Inr ts
         \<and> map_of AVAILABLE_MODELS (model (run_args ''icon'')) = Some model_id
         \<and> (target (run_args ''icon'') = ''icon'' \<or> target (run_args ''icon'') = ''all'')
         \<and> main_loop (example_env (\<lambda>n. answer 200 good_text)) model_id ts (start empty_world)
             = (s, None)
         \<and> map_of (results s) ''icon'' = Some (Success f p)
         \<and> resizes (fst (main (example_env (\<lambda>n. answer 200 good_text)) (run_args ''icon'')
                           empty_world))
             = resizes empty_world @ [p])"
proof -
  have ev: "resizes (fst (main (example_env (\<lambda>n. answer 200 good_text)) (run_args ''icon'')
                            empty_world)) = [''assets/icon128.png'']"
    by (simp add: run_defs)
  then have "resizes (fst (main (example_env (\<lambda>n. answer 200 good_text)) (run_args ''icon'')
                            empty_world)) \<noteq> resizes empty_world"
    by (simp add: empty_world_def)
  with icon_derivation_only_after_icon_success
         [of "example_env (\<lambda>n. answer 200 good_text)" "run_args ''icon''" empty_world]
  show ?thesis
    using ev by blast
qed

end
